theory Spec2Isabelle
  imports Complex_Main "HOL-Library.Log_Nat"
begin

section \<open>JavaScript values used by the pricing engine\<close>

text \<open>
  The pricing engine, \<^verbatim>\<open>PricingEngine.calculate\<close>, computes on JavaScript numbers and reads
  its price tables with \<^verbatim>\<open>TABLE[key]\<close>. A finite number is the rational it denotes, and
  every arithmetic operation rounds its exact result to the nearest double (\<open>fl\<close> below);
  \<open>NaN\<close> is a value of its own. A table is an object literal, so a key that is
  not an own property is looked up on \<^verbatim>\<open>Object.prototype\<close>: the result is then a function or
  object (\<open>Obj\<close>), not \<^verbatim>\<open>undefined\<close>. \<open>Str\<close> stands for a string that is not a numeric
  literal (what \<^verbatim>\<open>+\<close> yields once one operand is such a function or object).
\<close>

subsection \<open>Rounding to a double\<close>

text \<open>
  A double has 53 significant bits. \<open>fl x\<close> is the double nearest to \<open>x\<close>, ties going to the
  even significand: \<open>x\<close> is scaled by a power of two into \<open>[2^52, 2^53)\<close>, rounded to an
  integer and scaled back. The exponent range is not modelled: on finite inputs no operation
  of the pricing engine overflows or reaches the subnormal numbers.
\<close>

definition floor_log2 :: "rat \<Rightarrow> int" where
  \<comment> \<open>\<open>\<lfloor>log\<^sub>2 x\<rfloor>\<close> of a positive rational\<close>
  "floor_log2 x = (if 1 \<le> x then bitlen \<lfloor>x\<rfloor> - 1 else - bitlen (\<lceil>1 / x\<rceil> - 1))"

definition rne :: "rat \<Rightarrow> int" where
  \<comment> \<open>round to the nearest integer, a tie to the even one\<close>
  "rne y =
     (let f = \<lfloor>y\<rfloor>; r = y - of_int f
      in if r < 1 / 2 then f else if 1 / 2 < r then f + 1 else if even f then f else f + 1)"

definition fl :: "rat \<Rightarrow> rat" where
  "fl x =
     (if x = 0 then 0
      else (let e = floor_log2 \<bar>x\<bar> - 52 in of_int (rne (x / 2 powi e)) * 2 powi e))"

subsection \<open>Values and operators\<close>

datatype jsval = Num rat | NaN | Undefined | Obj | Str

definition Object_prototype_keys :: "string list" where
  "Object_prototype_keys =
     [''constructor'', ''__defineGetter__'', ''__defineSetter__'', ''hasOwnProperty'',
      ''__lookupGetter__'', ''__lookupSetter__'', ''isPrototypeOf'', ''propertyIsEnumerable'',
      ''toString'', ''valueOf'', ''__proto__'', ''toLocaleString'']"

definition js_get :: "(string \<times> rat) list \<Rightarrow> string \<Rightarrow> jsval" where
  \<comment> \<open>\<^verbatim>\<open>obj[key]\<close> on an object literal whose own properties are numbers\<close>
  "js_get obj k =
     (case map_of obj k of
        Some v \<Rightarrow> Num v
      | None \<Rightarrow> if k \<in> set Object_prototype_keys then Obj else Undefined)"

fun truthy :: "jsval \<Rightarrow> bool" where
  "truthy (Num r) = (r \<noteq> 0)"
| "truthy NaN = False"
| "truthy Undefined = False"
| "truthy Obj = True"
| "truthy Str = True"

definition js_or :: "jsval \<Rightarrow> jsval \<Rightarrow> jsval" where
  \<comment> \<open>\<^verbatim>\<open>a || b\<close>\<close>
  "js_or a b = (if truthy a then a else b)"

fun js_times :: "jsval \<Rightarrow> jsval \<Rightarrow> jsval" where
  "js_times (Num a) (Num b) = Num (fl (a * b))"
| "js_times _ _ = NaN"

fun js_div :: "jsval \<Rightarrow> jsval \<Rightarrow> jsval" where
  \<comment> \<open>only used with a non-zero divisor\<close>
  "js_div (Num a) (Num b) = (if b = 0 then NaN else Num (fl (a / b)))"
| "js_div _ _ = NaN"

fun js_plus :: "jsval \<Rightarrow> jsval \<Rightarrow> jsval" where
  \<comment> \<open>\<^verbatim>\<open>a + b\<close>: concatenation as soon as one operand converts to a string\<close>
  "js_plus Obj _ = Str"
| "js_plus Str _ = Str"
| "js_plus _ Obj = Str"
| "js_plus _ Str = Str"
| "js_plus (Num a) (Num b) = Num (fl (a + b))"
| "js_plus _ _ = NaN"

fun js_gt :: "jsval \<Rightarrow> rat \<Rightarrow> bool" where
  \<comment> \<open>\<^verbatim>\<open>a > n\<close> for a number \<open>n\<close>: false whenever \<open>a\<close> converts to \<open>NaN\<close>\<close>
  "js_gt (Num a) n = (a > n)"
| "js_gt _ n = False"

fun Math_round :: "jsval \<Rightarrow> jsval" where
  \<comment> \<open>\<^verbatim>\<open>Math.round\<close> rounds half up, \<open>round x = \<lfloor>x + 1/2\<rfloor>\<close>, and is exact on doubles\<close>
  "Math_round (Num a) = Num (of_int (round a))"
| "Math_round _ = NaN"

fun Math_max :: "jsval \<Rightarrow> jsval \<Rightarrow> jsval" where
  "Math_max (Num a) (Num b) = Num (max a b)"
| "Math_max _ _ = NaN"

fun replace_first :: "string \<Rightarrow> string \<Rightarrow> string \<Rightarrow> string" where
  \<comment> \<open>\<^verbatim>\<open>s.replace(pat, rep)\<close> with a string pattern: the first occurrence only\<close>
  "replace_first pat rep [] = (if pat = [] then rep else [])"
| "replace_first pat rep (c # cs) =
     (if take (length pat) (c # cs) = pat then rep @ drop (length pat) (c # cs)
      else c # replace_first pat rep cs)"

section \<open>Pricing engine\<close>

datatype complexity = CSimple | CMedium | CComplex

fun complexity_name :: "complexity \<Rightarrow> string" where
  "complexity_name CSimple = ''simple''"
| "complexity_name CMedium = ''medium''"
| "complexity_name CComplex = ''complex''"

record TaskAnalysis =
  an_category :: string
  an_complexity :: complexity
  an_estimatedTokens :: rat
  an_toolsRequired :: "string list"

record PriceBreakdown =
  item :: string
  amount :: jsval

record PriceResult =
  total :: jsval
  breakdown :: "PriceBreakdown list"

definition BASE_PRICES :: "(string \<times> rat) list" where
  "BASE_PRICES =
     [(''research'', 2), (''website'', 15), (''writing'', 5), (''code'', 10),
      (''design'', 20), (''other'', 5)]"

fun COMPLEXITY_MULTIPLIERS :: "complexity \<Rightarrow> rat" where
  "COMPLEXITY_MULTIPLIERS CSimple = 1"
| "COMPLEXITY_MULTIPLIERS CMedium = 3 / 2"
| "COMPLEXITY_MULTIPLIERS CComplex = 5 / 2"

definition TOOL_COSTS :: "(string \<times> rat) list" where
  "TOOL_COSTS =
     [(''playwright-mcp'', 1 / 2), (''exa-mcp'', 1 / 4), (''vercel-mcp'', 1),
      (''github-mcp'', 1 / 2), (''dalle-mcp'', 2), (''polymarket-mcp'', 0)]"

definition add_tool :: "PriceBreakdown list \<Rightarrow> string \<Rightarrow> PriceBreakdown list" where
  \<comment> \<open>one iteration of the loop over \<^verbatim>\<open>analysis.toolsRequired\<close>\<close>
  "add_tool bd tool =
     (let toolCost = js_get TOOL_COSTS tool
      in if truthy toolCost \<and> js_gt toolCost 0
         then bd @ [\<lparr>item = replace_first ''-mcp'' '''' tool, amount = toolCost\<rparr>]
         else bd)"

definition tokenCost :: "rat \<Rightarrow> rat" where
  \<comment> \<open>\<^verbatim>\<open>Math.round(extraTokens * 0.0001 * 100) / 100\<close>, each operation rounded to a double;
      the literal \<^verbatim>\<open>0.0001\<close> is the double nearest to \<open>1/10000\<close>\<close>
  "tokenCost extraTokens =
     fl (of_int (round (fl (fl (extraTokens * fl (1 / 10000)) * 100))) / 100)"

definition calculate :: "TaskAnalysis \<Rightarrow> PriceResult" where
  "calculate analysis =
     (let basePrice = js_or (js_get BASE_PRICES (an_category analysis))
                            (js_get BASE_PRICES ''other'');
          bd0 = [\<lparr>item = an_category analysis @ '' base'', amount = basePrice\<rparr>];
          multiplier = COMPLEXITY_MULTIPLIERS (an_complexity analysis);
          complexityAdjustment = js_times basePrice (Num (fl (multiplier - 1)));
          bd1 = (if js_gt complexityAdjustment 0
                 then bd0 @ [\<lparr>item = complexity_name (an_complexity analysis) @ '' complexity'',
                               amount = complexityAdjustment\<rparr>]
                 else bd0);
          bd2 = foldl add_tool bd1 (an_toolsRequired analysis);
          bd3 = (if an_estimatedTokens analysis > 4000
                 then (let extraTokens = fl (an_estimatedTokens analysis - 4000)
                       in if tokenCost extraTokens > 0
                          then bd2 @ [\<lparr>item = ''extended output'',
                                        amount = Num (tokenCost extraTokens)\<rparr>]
                          else bd2)
                 else bd2);
          total = js_div (Math_round (js_times (foldl (\<lambda>sum b. js_plus sum (amount b)) (Num 0) bd3)
                                               (Num 100)))
                         (Num 100);
          finalTotal = Math_max total (Num 1)
      in \<lparr>total = finalTotal, breakdown = bd3\<rparr>)"

section \<open>Strings and big integers of the payment verifier\<close>

text \<open>
  Strings are byte lists; \<^verbatim>\<open>toLowerCase\<close> is modelled on the ASCII letters, which is all that
  hexadecimal addresses contain.
\<close>

definition lower_char :: "char \<Rightarrow> char" where
  "lower_char c =
     (let n = (of_char c :: nat)
      in if 65 \<le> n \<and> n \<le> 90 then ''abcdefghijklmnopqrstuvwxyz'' ! (n - 65) else c)"

definition toLowerCase :: "string \<Rightarrow> string" where
  "toLowerCase s = map lower_char s"

definition padStart :: "nat \<Rightarrow> char \<Rightarrow> string \<Rightarrow> string" where
  "padStart n c s = replicate (n - length s) c @ s"

definition padEnd :: "nat \<Rightarrow> char \<Rightarrow> string \<Rightarrow> string" where
  "padEnd n c s = s @ replicate (n - length s) c"

definition digit_char :: "nat \<Rightarrow> char" where
  \<comment> \<open>the character of a decimal digit\<close>
  "digit_char d = ''0123456789'' ! (d mod 10)"

function dec :: "nat \<Rightarrow> string" where
  \<comment> \<open>\<^verbatim>\<open>n.toString()\<close> of a non-negative bigint\<close>
  "dec n = (if n < 10 then [digit_char n] else dec (n div 10) @ [digit_char (n mod 10)])"
  by pat_completeness auto
termination
  by (relation "measure id") auto

declare dec.simps [simp del]

definition digit_val :: "char \<Rightarrow> nat option" where
  \<comment> \<open>the value of a digit \<^verbatim>\<open>0-9\<close>, \<^verbatim>\<open>a-z\<close> or \<^verbatim>\<open>A-Z\<close>\<close>
  "digit_val c =
     (let n = (of_char c :: nat)
      in if 48 \<le> n \<and> n \<le> 57 then Some (n - 48)
         else if 97 \<le> n \<and> n \<le> 122 then Some (n - 87)
         else if 65 \<le> n \<and> n \<le> 90 then Some (n - 55)
         else None)"

definition is_digit :: "nat \<Rightarrow> char \<Rightarrow> bool" where
  "is_digit base c = (case digit_val c of None \<Rightarrow> False | Some d \<Rightarrow> d < base)"

definition radix_value :: "nat \<Rightarrow> string \<Rightarrow> nat" where
  "radix_value base s = foldl (\<lambda>acc c. acc * base + the (digit_val c)) 0 s"

definition parse_radix :: "nat \<Rightarrow> string \<Rightarrow> nat option" where
  \<comment> \<open>a non-empty run of digits of the base, or nothing\<close>
  "parse_radix base s =
     (if s \<noteq> [] \<and> list_all (is_digit base) s then Some (radix_value base s) else None)"

definition dropWhileEnd :: "(char \<Rightarrow> bool) \<Rightarrow> string \<Rightarrow> string" where
  "dropWhileEnd P s = rev (dropWhile P (rev s))"

definition is_space :: "char \<Rightarrow> bool" where
  "is_space c = ((of_char c :: nat) \<in> {9, 10, 11, 12, 13, 32})"

definition trim :: "string \<Rightarrow> string" where
  "trim s = dropWhile is_space (dropWhileEnd is_space s)"

definition BigInt :: "string \<Rightarrow> string + int" where
  \<comment> \<open>\<^verbatim>\<open>BigInt(s)\<close> of a string: blank is zero; a \<^verbatim>\<open>0x\<close>, \<^verbatim>\<open>0o\<close> or \<^verbatim>\<open>0b\<close> literal; or an
      optionally signed decimal; anything else throws a SyntaxError with this message\<close>
  "BigInt s =
     (let t = trim s;
          failure = Inl (''Cannot convert '' @ s @ '' to a BigInt'');
          unsigned = (\<lambda>base ds. case parse_radix base ds of
                                   None \<Rightarrow> failure | Some n \<Rightarrow> Inr (int n))
      in if t = [] then Inr 0
         else if take 2 t = ''0x'' \<or> take 2 t = ''0X'' then unsigned 16 (drop 2 t)
         else if take 2 t = ''0o'' \<or> take 2 t = ''0O'' then unsigned 8 (drop 2 t)
         else if take 2 t = ''0b'' \<or> take 2 t = ''0B'' then unsigned 2 (drop 2 t)
         else if take 1 t = ''-''
              then (case parse_radix 10 (drop 1 t) of
                      None \<Rightarrow> failure | Some n \<Rightarrow> Inr (- int n))
         else if take 1 t = ''+'' then unsigned 10 (drop 1 t)
         else unsigned 10 t)"

text \<open>
  \<^verbatim>\<open>formatUnits\<close> and \<^verbatim>\<open>parseUnits\<close> are functions of the \<^verbatim>\<open>viem\<close> library that the verifier
  imports. \<^verbatim>\<open>formatUnits\<close> writes a base-unit amount as a decimal and drops the trailing zeros
  of the fraction (and the point with them). \<^verbatim>\<open>parseUnits\<close> accepts
  \<^verbatim>\<open>/^(-?)([0-9]*)\.?([0-9]*)$/\<close>, throws on anything else, and rounds a fraction longer than
  \<open>decimals\<close> half up at the last kept digit; that rounding,
  \<^verbatim>\<open>Math.round(Number(unit + "." + right))\<close>, is read exactly.
\<close>

definition strip_zeros :: "string \<Rightarrow> string" where
  \<comment> \<open>\<^verbatim>\<open>s.replace(/(0+)$/, '')\<close>\<close>
  "strip_zeros s = dropWhileEnd (\<lambda>c. c = CHR ''0'') s"

definition formatUnits :: "int \<Rightarrow> nat \<Rightarrow> string" where
  "formatUnits v decimals =
     (let negative = v < 0;
          display = padStart decimals CHR ''0'' (dec (nat \<bar>v\<bar>));
          integer = take (length display - decimals) display;
          fraction = strip_zeros (drop (length display - decimals) display)
      in (if negative then ''-'' else '''')
         @ (if integer = [] then ''0'' else integer)
         @ (if fraction = [] then '''' else ''.'' @ fraction))"

definition is_decimal_number :: "string \<Rightarrow> bool" where
  \<comment> \<open>the regular expression \<^verbatim>\<open>/^(-?)([0-9]*)\.?([0-9]*)$/\<close>\<close>
  "is_decimal_number s =
     (let s1 = (if take 1 s = ''-'' then drop 1 s else s);
          s2 = dropWhile (is_digit 10) s1;
          s3 = (if take 1 s2 = ''.'' then drop 1 s2 else s2)
      in list_all (is_digit 10) s3)"

definition round_up :: "string \<Rightarrow> bool" where
  \<comment> \<open>whether the digits \<open>0.right\<close> are at least one half\<close>
  "round_up right = (case right of [] \<Rightarrow> False | c # _ \<Rightarrow> 5 \<le> the (digit_val c))"

definition parseUnits :: "string \<Rightarrow> nat \<Rightarrow> string + int" where
  "parseUnits v decimals =
     (if \<not> is_decimal_number v
      then Inl (''Number '' @ [CHR 0x22] @ v @ [CHR 0x22] @ '' is not a valid decimal number.'')
      else
       (let integer0 = takeWhile (\<lambda>c. c \<noteq> CHR ''.'') v;
            rest = dropWhile (\<lambda>c. c \<noteq> CHR ''.'') v;
            fraction0 = (if rest = [] then ''0'' else drop 1 rest);
            negative = (take 1 integer0 = ''-'');
            integer1 = (if negative then drop 1 integer0 else integer0);
            fraction1 = strip_zeros fraction0;
            (integer2, fraction2) =
              (if decimals = 0
               then ((if round_up fraction1 then dec (radix_value 10 integer1 + 1) else integer1),
                     '''')
               else if length fraction1 > decimals
               then (let left = take (decimals - 1) fraction1;
                         unit = take 1 (drop (decimals - 1) fraction1);
                         right = drop decimals fraction1;
                         rounded = radix_value 10 unit + (if round_up right then 1 else 0);
                         fraction3 = (if rounded > 9
                                      then padStart (length left + 1) CHR ''0''
                                             (dec (radix_value 10 left + 1) @ ''0'')
                                      else left @ dec rounded);
                         (integer3, fraction4) =
                            (if length fraction3 > decimals
                             then (dec (radix_value 10 integer1 + 1), drop 1 fraction3)
                             else (integer1, fraction3))
                     in (integer3, take decimals fraction4))
               else (integer1, padEnd decimals CHR ''0'' fraction1))
        in BigInt ((if negative then ''-'' else '''') @ integer2 @ fraction2)))"

section \<open>Payment verifier\<close>

definition USDC_DECIMALS :: nat where
  "USDC_DECIMALS = 6"

definition Transfer_signature :: string where
  "Transfer_signature = ''0xddf252ad1be2c89b69c2b068fc378daa952ba7f163c4a11628f55a4df523b3ef''"

datatype network = Base | BaseSepolia

datatype TxStatus = Success | Reverted

record Log =
  address :: string
  topics :: "string list"
  data :: string

record TransactionReceipt =
  receipt_status :: TxStatus
  logs :: "Log list"

record PaymentProof =
  txHash :: string
  proof_network :: network

record PaymentVerification =
  v_valid :: bool
  v_sender :: "string option"
  v_amount :: "string option"
  v_error :: "string option"

text \<open>
  The handler holds the agent's account, the stablecoin contract and a ledger client.
  \<^verbatim>\<open>getTransactionReceipt\<close> is the client's answer for a transaction hash: it throws (\<open>Inl\<close>
  with the error's message), or yields no receipt, or a receipt.
\<close>

record X402PaymentHandler =
  account_address :: string
  usdcAddress :: string
  getTransactionReceipt :: "string \<Rightarrow> string + TransactionReceipt option"

definition invalid :: "string \<Rightarrow> PaymentVerification" where
  \<comment> \<open>\<^verbatim>\<open>{ valid: false, error }\<close>\<close>
  "invalid e = \<lparr>v_valid = False, v_sender = None, v_amount = None, v_error = Some e\<rparr>"

definition is_transfer_log :: "X402PaymentHandler \<Rightarrow> Log \<Rightarrow> bool" where
  \<comment> \<open>the predicate of \<^verbatim>\<open>receipt.logs.find\<close>\<close>
  "is_transfer_log h lg =
     (toLowerCase (address lg) = toLowerCase (usdcAddress h)
      \<and> (case topics lg of [] \<Rightarrow> False | t0 # _ \<Rightarrow> t0 = Transfer_signature))"

definition topic_address :: "Log \<Rightarrow> nat \<Rightarrow> string" where
  \<comment> \<open>\<^verbatim>\<open>`0x${log.topics[i]?.slice(26)}`\<close>\<close>
  "topic_address lg i =
     ''0x'' @ (if i < length (topics lg) then drop 26 (topics lg ! i) else ''undefined'')"

definition verifyPayment_try ::
  "X402PaymentHandler \<Rightarrow> PaymentProof \<Rightarrow> string \<Rightarrow> string option
     \<Rightarrow> string + PaymentVerification" where
  \<comment> \<open>the body of the \<^verbatim>\<open>try\<close> block; \<open>Inl\<close> is a thrown error's message\<close>
  "verifyPayment_try h pr expectedAmount expectedSender =
     (case getTransactionReceipt h (txHash pr) of
        Inl e \<Rightarrow> Inl e
      | Inr None \<Rightarrow> Inr (invalid ''Transaction not found'')
      | Inr (Some receipt) \<Rightarrow>
          if receipt_status receipt \<noteq> Success then Inr (invalid ''Transaction failed'')
          else
           (case find (is_transfer_log h) (logs receipt) of
              None \<Rightarrow> Inr (invalid ''No USDC transfer found in transaction'')
            | Some transferLog \<Rightarrow>
               (let sender = topic_address transferLog 1;
                    recipient = topic_address transferLog 2
                in case BigInt (data transferLog) of
                     Inl e \<Rightarrow> Inl e
                   | Inr amt \<Rightarrow>
                       if toLowerCase recipient \<noteq> toLowerCase (account_address h)
                       then Inr (invalid ''Payment sent to wrong address'')
                       else
                        (case parseUnits expectedAmount USDC_DECIMALS of
                           Inl e \<Rightarrow> Inl e
                         | Inr expectedAmountWei \<Rightarrow>
                             if amt < expectedAmountWei
                             then Inr (invalid (''Insufficient payment: received ''
                                         @ formatUnits amt USDC_DECIMALS
                                         @ '' USDC, expected '' @ expectedAmount @ '' USDC''))
                             else if (case expectedSender of
                                        None \<Rightarrow> False
                                      | Some es \<Rightarrow> es \<noteq> []
                                          \<and> toLowerCase sender \<noteq> toLowerCase es)
                             then Inr (invalid ''Payment from unexpected sender'')
                             else Inr \<lparr>v_valid = True, v_sender = Some sender,
                                       v_amount = Some (formatUnits amt USDC_DECIMALS),
                                       v_error = None\<rparr>))))"

definition verifyPayment ::
  "X402PaymentHandler \<Rightarrow> PaymentProof \<Rightarrow> string \<Rightarrow> string option \<Rightarrow> PaymentVerification" where
  \<comment> \<open>the \<^verbatim>\<open>catch\<close> turns every thrown error into a result\<close>
  "verifyPayment h pr expectedAmount expectedSender =
     (case verifyPayment_try h pr expectedAmount expectedSender of
        Inr v \<Rightarrow> v
      | Inl message \<Rightarrow> invalid (''Verification failed: '' @ message))"

section \<open>Task store\<close>

datatype TaskStatus = pending_payment | paid | in_progress | completed | failed

datatype Channel = twitter | telegram | discord | web

text \<open>A \<^verbatim>\<open>Date\<close> is its count of milliseconds since the epoch.\<close>

type_synonym Date = nat

record Task =
  task_id :: string
  status :: TaskStatus
  channel :: Channel
  channelMessageId :: string
  senderId :: string
  senderAddress :: "string option"
  description :: string
  category :: string
  priceUsdc :: string
  paidTxHash :: "string option"
  paidAt :: "Date option"
  startedAt :: "Date option"
  completedAt :: "Date option"
  deliverable :: "string option"
  error :: "string option"
  createdAt :: Date
  updatedAt :: Date

text \<open>
  \<^verbatim>\<open>TaskUpdate = Partial<Omit<Task, 'id' | 'createdAt'>>\<close>: \<open>None\<close> is a key that the update
  does not carry. For an optional field of the task, \<open>Some None\<close> is a key carried with the
  value \<^verbatim>\<open>undefined\<close>, which the object spread copies like any other value.
\<close>

record TaskUpdate =
  u_status :: "TaskStatus option"
  u_channel :: "Channel option"
  u_channelMessageId :: "string option"
  u_senderId :: "string option"
  u_senderAddress :: "string option option"
  u_description :: "string option"
  u_category :: "string option"
  u_priceUsdc :: "string option"
  u_paidTxHash :: "string option option"
  u_paidAt :: "Date option option"
  u_startedAt :: "Date option option"
  u_completedAt :: "Date option option"
  u_deliverable :: "string option option"
  u_error :: "string option option"
  u_updatedAt :: "Date option"

definition no_update :: TaskUpdate where
  \<comment> \<open>the empty object \<^verbatim>\<open>{}\<close>\<close>
  "no_update =
     \<lparr>u_status = None, u_channel = None, u_channelMessageId = None, u_senderId = None,
      u_senderAddress = None, u_description = None, u_category = None, u_priceUsdc = None,
      u_paidTxHash = None, u_paidAt = None, u_startedAt = None, u_completedAt = None,
      u_deliverable = None, u_error = None, u_updatedAt = None\<rparr>"

definition over :: "'a \<Rightarrow> 'a option \<Rightarrow> 'a" where
  \<comment> \<open>one key of \<^verbatim>\<open>{ ...existing, ...update }\<close>\<close>
  "over old new = (case new of None \<Rightarrow> old | Some v \<Rightarrow> v)"

definition merge :: "Task \<Rightarrow> TaskUpdate \<Rightarrow> Date \<Rightarrow> Task" where
  \<comment> \<open>\<^verbatim>\<open>{ ...existing, ...update, updatedAt: new Date() }\<close>\<close>
  "merge existing update now =
     \<lparr>task_id = task_id existing,
      status = over (status existing) (u_status update),
      channel = over (channel existing) (u_channel update),
      channelMessageId = over (channelMessageId existing) (u_channelMessageId update),
      senderId = over (senderId existing) (u_senderId update),
      senderAddress = over (senderAddress existing) (u_senderAddress update),
      description = over (description existing) (u_description update),
      category = over (category existing) (u_category update),
      priceUsdc = over (priceUsdc existing) (u_priceUsdc update),
      paidTxHash = over (paidTxHash existing) (u_paidTxHash update),
      paidAt = over (paidAt existing) (u_paidAt update),
      startedAt = over (startedAt existing) (u_startedAt update),
      completedAt = over (completedAt existing) (u_completedAt update),
      deliverable = over (deliverable existing) (u_deliverable update),
      error = over (error existing) (u_error update),
      createdAt = createdAt existing,
      updatedAt = now\<rparr>"

subsection \<open>The hash written to the backing store\<close>

text \<open>
  \<^verbatim>\<open>serializeTask\<close> writes every field as text. An optional string is written as itself or as
  the empty string, and read back as absent when the text is empty. The status and the
  channel are written as their literals and cast back, and a date is written as its ISO
  text, which is never empty and which \<^verbatim>\<open>new Date\<close> reads back to the same millisecond:
  these fields are kept as they are, an absent date being \<open>None\<close>.
\<close>

record SerializedTask =
  s_id :: string
  s_status :: TaskStatus
  s_channel :: Channel
  s_channelMessageId :: string
  s_senderId :: string
  s_senderAddress :: string
  s_description :: string
  s_category :: string
  s_priceUsdc :: string
  s_paidTxHash :: string
  s_paidAt :: "Date option"
  s_startedAt :: "Date option"
  s_completedAt :: "Date option"
  s_deliverable :: string
  s_error :: string
  s_createdAt :: Date
  s_updatedAt :: Date

definition or_empty :: "string option \<Rightarrow> string" where
  \<comment> \<open>\<^verbatim>\<open>x || ''\<close>\<close>
  "or_empty x = (case x of None \<Rightarrow> '''' | Some s \<Rightarrow> s)"

definition or_undefined :: "string \<Rightarrow> string option" where
  \<comment> \<open>\<^verbatim>\<open>s ? s : undefined\<close> and \<^verbatim>\<open>s || undefined\<close>\<close>
  "or_undefined s = (if s = '''' then None else Some s)"

definition serializeTask :: "Task \<Rightarrow> SerializedTask" where
  "serializeTask task =
     \<lparr>s_id = task_id task,
      s_status = status task,
      s_channel = channel task,
      s_channelMessageId = channelMessageId task,
      s_senderId = senderId task,
      s_senderAddress = or_empty (senderAddress task),
      s_description = description task,
      s_category = category task,
      s_priceUsdc = priceUsdc task,
      s_paidTxHash = or_empty (paidTxHash task),
      s_paidAt = paidAt task,
      s_startedAt = startedAt task,
      s_completedAt = completedAt task,
      s_deliverable = or_empty (deliverable task),
      s_error = or_empty (error task),
      s_createdAt = createdAt task,
      s_updatedAt = updatedAt task\<rparr>"

definition deserializeTask :: "SerializedTask \<Rightarrow> Task" where
  "deserializeTask d =
     \<lparr>task_id = s_id d,
      status = s_status d,
      channel = s_channel d,
      channelMessageId = s_channelMessageId d,
      senderId = s_senderId d,
      senderAddress = or_undefined (s_senderAddress d),
      description = s_description d,
      category = s_category d,
      priceUsdc = s_priceUsdc d,
      paidTxHash = or_undefined (s_paidTxHash d),
      paidAt = s_paidAt d,
      startedAt = s_startedAt d,
      completedAt = s_completedAt d,
      deliverable = or_undefined (s_deliverable d),
      error = or_undefined (s_error d),
      createdAt = s_createdAt d,
      updatedAt = s_updatedAt d\<rparr>"

subsection \<open>The store in its two modes\<close>

text \<open>
  \<open>useInMemory\<close> selects the mode. The in-memory maps are \<^verbatim>\<open>Map\<close>s of \<^verbatim>\<open>Set\<close>s, a set being
  the list of its members in insertion order. The backing store is its hashes, its sets and
  the sorted set \<^verbatim>\<open>tasks:created\<close>, under the keys the code builds; its commands are taken
  to succeed. \<open>jobs\<close> is the external work queue.
\<close>

record TaskQueue =
  useInMemory :: bool
  inMemoryTasks :: "string \<rightharpoonup> Task"
  inMemoryBySender :: "string \<rightharpoonup> string list"
  inMemoryByStatus :: "TaskStatus \<rightharpoonup> string list"
  inMemoryQueue :: "string list"
  redis_hashes :: "string \<rightharpoonup> SerializedTask"
  redis_sets :: "string \<Rightarrow> string list"
  redis_created :: "(Date \<times> string) list"
  jobs :: "string list"

fun status_name :: "TaskStatus \<Rightarrow> string" where
  "status_name pending_payment = ''pending_payment''"
| "status_name paid = ''paid''"
| "status_name in_progress = ''in_progress''"
| "status_name completed = ''completed''"
| "status_name failed = ''failed''"

definition set_add :: "string \<Rightarrow> string list \<Rightarrow> string list" where
  \<comment> \<open>\<^verbatim>\<open>Set.add\<close> and \<^verbatim>\<open>SADD\<close>\<close>
  "set_add x xs = (if x \<in> set xs then xs else xs @ [x])"

definition set_delete :: "string \<Rightarrow> string list \<Rightarrow> string list" where
  \<comment> \<open>\<^verbatim>\<open>Set.delete\<close> and \<^verbatim>\<open>SREM\<close>\<close>
  "set_delete x xs = removeAll x xs"

definition members :: "('k \<rightharpoonup> string list) \<Rightarrow> 'k \<Rightarrow> string list" where
  "members m k = (case m k of None \<Rightarrow> [] | Some xs \<Rightarrow> xs)"

record CreateTaskData =
  d_channel :: Channel
  d_channelMessageId :: string
  d_senderId :: string
  d_senderAddress :: "string option"
  d_description :: string
  d_category :: string
  d_priceUsdc :: string
  d_status :: "TaskStatus option"

definition createTask ::
  "TaskQueue \<Rightarrow> CreateTaskData \<Rightarrow> string \<Rightarrow> (nat \<Rightarrow> Date) \<Rightarrow> Task \<times> TaskQueue" where
  \<comment> \<open>\<open>uuid\<close> is the value of \<^verbatim>\<open>randomUUID()\<close>, \<open>now n\<close> the \<open>n\<close>-th reading of the clock\<close>
  "createTask q d uuid now =
     (let task = \<lparr>task_id = uuid,
                   status = (case d_status d of None \<Rightarrow> pending_payment | Some s \<Rightarrow> s),
                   channel = d_channel d,
                   channelMessageId = d_channelMessageId d,
                   senderId = d_senderId d,
                   senderAddress = d_senderAddress d,
                   description = d_description d,
                   category = d_category d,
                   priceUsdc = d_priceUsdc d,
                   paidTxHash = None, paidAt = None, startedAt = None, completedAt = None,
                   deliverable = None, error = None,
                   createdAt = now 0,
                   updatedAt = now 1\<rparr>
      in if useInMemory q
         then (task,
               q\<lparr>inMemoryTasks := (inMemoryTasks q)(uuid \<mapsto> task),
                  inMemoryBySender := (inMemoryBySender q)
                     (d_senderId d \<mapsto> set_add uuid (members (inMemoryBySender q) (d_senderId d))),
                  inMemoryByStatus := (inMemoryByStatus q)
                     (status task \<mapsto> set_add uuid (members (inMemoryByStatus q) (status task)))\<rparr>)
         else (let k1 = ''tasks:sender:'' @ d_senderId d;
                   k2 = ''tasks:status:'' @ status_name (status task);
                   s1 = (redis_sets q)(k1 := set_add uuid (redis_sets q k1));
                   s2 = s1(k2 := set_add uuid (s1 k2))
               in (task,
                   q\<lparr>redis_hashes := (redis_hashes q)(''task:'' @ uuid \<mapsto> serializeTask task),
                      redis_sets := s2,
                      redis_created := redis_created q @ [(now 2, uuid)]\<rparr>)))"

definition getTask :: "TaskQueue \<Rightarrow> string \<Rightarrow> Task option" where
  "getTask q i =
     (if useInMemory q then inMemoryTasks q i
      else map_option deserializeTask (redis_hashes q (''task:'' @ i)))"

definition updateTask ::
  "TaskQueue \<Rightarrow> string \<Rightarrow> TaskUpdate \<Rightarrow> Date \<Rightarrow> Task option \<times> TaskQueue" where
  "updateTask q i update now =
     (case getTask q i of
        None \<Rightarrow> (None, q)
      | Some existing \<Rightarrow>
         (let updated = merge existing update now;
              moved = (case u_status update of
                         None \<Rightarrow> False | Some s \<Rightarrow> s \<noteq> status existing)
          in if useInMemory q
             then (Some updated,
                   q\<lparr>inMemoryTasks := (inMemoryTasks q)(i \<mapsto> updated),
                      inMemoryByStatus :=
                        (if moved
                         then (let m1 = (case inMemoryByStatus q (status existing) of
                                           None \<Rightarrow> inMemoryByStatus q
                                         | Some xs \<Rightarrow> (inMemoryByStatus q)
                                                        (status existing \<mapsto> set_delete i xs))
                               in m1(status updated \<mapsto> set_add i (members m1 (status updated))))
                         else inMemoryByStatus q)\<rparr>)
             else (Some updated,
                   q\<lparr>redis_sets :=
                        (if moved
                         then (let k1 = ''tasks:status:'' @ status_name (status existing);
                                   k2 = ''tasks:status:'' @ status_name (status updated);
                                   s1 = (redis_sets q)(k1 := set_delete i (redis_sets q k1))
                               in s1(k2 := set_add i (s1 k2)))
                         else redis_sets q),
                      redis_hashes := (redis_hashes q)(''task:'' @ i \<mapsto> serializeTask updated)\<rparr>)))"

definition enqueue :: "TaskQueue \<Rightarrow> string \<Rightarrow> TaskQueue" where
  "enqueue q taskId =
     (if useInMemory q then q\<lparr>inMemoryQueue := inMemoryQueue q @ [taskId]\<rparr>
      else q\<lparr>jobs := jobs q @ [taskId]\<rparr>)"

definition getStats :: "TaskQueue \<Rightarrow> nat \<times> nat \<times> nat \<times> nat \<times> nat" where
  \<comment> \<open>\<open>(pending, paid, inProgress, completed, failed)\<close>\<close>
  "getStats q =
     (let count = (\<lambda>s. if useInMemory q then length (members (inMemoryByStatus q) s)
                        else length (redis_sets q (''tasks:status:'' @ status_name s)))
      in (count pending_payment, count paid, count in_progress, count completed, count failed))"

definition empty_queue :: "bool \<Rightarrow> TaskQueue" where
  \<comment> \<open>a store just constructed, in the given mode\<close>
  "empty_queue mem =
     \<lparr>useInMemory = mem, inMemoryTasks = Map.empty, inMemoryBySender = Map.empty,
      inMemoryByStatus = Map.empty, inMemoryQueue = [], redis_hashes = Map.empty,
      redis_sets = (\<lambda>k. []), redis_created = [], jobs = []\<rparr>"

section \<open>Orchestrator\<close>

record IncomingMessage =
  msg_channel :: Channel
  msg_channelMessageId :: string
  msg_senderId :: string
  msg_senderAddress :: "string option"
  content :: string

record AgentResponse =
  r_content :: string
  r_taskId :: "string option"

fun split_on :: "char \<Rightarrow> string \<Rightarrow> string list" where
  \<comment> \<open>\<^verbatim>\<open>s.split(c)\<close>\<close>
  "split_on c [] = [[]]"
| "split_on c (x # xs) =
     (if x = c then [] # split_on c xs
      else (case split_on c xs of [] \<Rightarrow> [[x]] | p # ps \<Rightarrow> (x # p) # ps))"

definition verified_text :: "string \<Rightarrow> string \<Rightarrow> string \<Rightarrow> string" where
  \<comment> \<open>the reply to a verified payment; the check mark is its three UTF-8 bytes\<close>
  "verified_text taskId price txh =
     [CHR 0xE2, CHR 0x9C, CHR 0x85] @ '' Payment verified! Your task is now in queue.''
     @ [CHR 0x0A, CHR 0x0A] @ ''Task ID: '' @ taskId
     @ [CHR 0x0A] @ ''Amount: '' @ price @ '' USDC''
     @ [CHR 0x0A] @ ''TX: '' @ take 10 txh @ ''...''
     @ [CHR 0x0A, CHR 0x0A] @ ''I'' @ [CHR 0x27] @ ''ll get started right away and reply when done!''"

definition handlePaymentVerification ::
  "X402PaymentHandler \<Rightarrow> TaskQueue \<Rightarrow> IncomingMessage \<Rightarrow> (nat \<Rightarrow> Date)
     \<Rightarrow> AgentResponse \<times> TaskQueue" where
  \<comment> \<open>\<open>now n\<close> is the \<open>n\<close>-th reading of the clock during the call\<close>
  "handlePaymentVerification payments q message now =
     (let parts = split_on CHR '':'' (content message)
      in if length parts < 3
         then (\<lparr>r_content = ''Invalid payment verification format.'', r_taskId = None\<rparr>, q)
         else
          (let taskId = parts ! 1;
               txh = parts ! 2
           in case getTask q taskId of
                None \<Rightarrow> (\<lparr>r_content = ''Task '' @ taskId @ '' not found.'', r_taskId = None\<rparr>, q)
              | Some task \<Rightarrow>
                 (let verification =
                        verifyPayment payments \<lparr>txHash = txh, proof_network = Base\<rparr>
                          (priceUsdc task) None
                  in if \<not> v_valid verification
                     then (\<lparr>r_content = ''Payment verification failed: ''
                                @ (case v_error verification of
                                     None \<Rightarrow> ''undefined'' | Some e \<Rightarrow> e),
                             r_taskId = None\<rparr>, q)
                     else
                      (let q1 = snd (updateTask q taskId
                                   (no_update\<lparr>u_status := Some paid,
                                              u_paidTxHash := Some (Some txh),
                                              u_paidAt := Some (Some (now 0)),
                                              u_senderAddress := Some (v_sender verification)\<rparr>)
                                   (now 1));
                           q2 = enqueue q1 taskId
                       in (\<lparr>r_content = verified_text taskId (priceUsdc task) txh,
                             r_taskId = Some taskId\<rparr>, q2)))))"

subsection \<open>Task execution\<close>

text \<open>
  A skill's \<^verbatim>\<open>execute\<close> returns a result or throws (\<open>Inl\<close> with the error's message); the
  skills and the learning memory are collaborators, given as functions. \<^verbatim>\<open>memory.store\<close>
  returns or throws (\<open>Some\<close> message). Sharing the learning with other agents catches its
  own errors and changes nothing here.
\<close>

record SkillContext =
  ctx_taskId :: string
  ctx_description :: string
  ctx_category :: string

record SkillResult =
  success :: bool
  res_deliverable :: string
  approach :: string

type_synonym Skill = "SkillContext \<Rightarrow> string + SkillResult"

definition getSkill :: "(string \<rightharpoonup> Skill) \<Rightarrow> string \<Rightarrow> Skill option" where
  \<comment> \<open>\<^verbatim>\<open>this.skills.get(category) || this.skills.get('other')\<close>\<close>
  "getSkill skills c = (case skills c of Some s \<Rightarrow> Some s | None \<Rightarrow> skills ''other'')"

definition mark_failed :: "TaskQueue \<Rightarrow> string \<Rightarrow> string \<Rightarrow> Date \<Rightarrow> TaskQueue" where
  \<comment> \<open>the \<^verbatim>\<open>catch\<close> block of \<^verbatim>\<open>executeTask\<close>\<close>
  "mark_failed q i message now =
     snd (updateTask q i (no_update\<lparr>u_status := Some failed, u_error := Some (Some message)\<rparr>) now)"

definition start_task :: "TaskQueue \<Rightarrow> string \<Rightarrow> (nat \<Rightarrow> Date) \<Rightarrow> TaskQueue" where
  \<comment> \<open>the first statement of the \<^verbatim>\<open>try\<close> block\<close>
  "start_task q i now =
     snd (updateTask q i
            (no_update\<lparr>u_status := Some in_progress, u_startedAt := Some (Some (now 0))\<rparr>)
            (now 1))"

definition executeTask ::
  "(string \<rightharpoonup> Skill) \<Rightarrow> (string \<Rightarrow> string option) \<Rightarrow> TaskQueue \<Rightarrow> Task \<Rightarrow> (nat \<Rightarrow> Date)
     \<Rightarrow> TaskQueue" where
  "executeTask skills memory_store q task now =
     (let q1 = start_task q (task_id task) now
      in case getSkill skills (category task) of
           None \<Rightarrow>
             mark_failed q1 (task_id task)
               (''No skill found for category: '' @ category task) (now 2)
         | Some skill \<Rightarrow>
            (case skill \<lparr>ctx_taskId = task_id task, ctx_description = description task,
                          ctx_category = category task\<rparr> of
               Inl message \<Rightarrow> mark_failed q1 (task_id task) message (now 2)
             | Inr result \<Rightarrow>
                (let q2 = snd (updateTask q1 (task_id task)
                                 (no_update\<lparr>u_status := Some completed,
                                            u_completedAt := Some (Some (now 2)),
                                            u_deliverable := Some (Some (res_deliverable result))\<rparr>)
                                 (now 3))
                 in case memory_store
                           (''Completed '' @ category task @ '' task: ''
                            @ take 100 (description task) @ ''. Approach: '' @ approach result) of
                      Some message \<Rightarrow> mark_failed q2 (task_id task) message (now 4)
                    | None \<Rightarrow> q2)))"

definition process_job ::
  "(TaskQueue \<Rightarrow> Task \<Rightarrow> TaskQueue) \<Rightarrow> TaskQueue \<Rightarrow> string \<Rightarrow> TaskQueue" where
  \<comment> \<open>the callback of \<^verbatim>\<open>startProcessor\<close> for a dequeued id: the task is looked up afresh and
      handed to the handler; an id without a task runs nothing\<close>
  "process_job handler q taskId =
     (case getTask q taskId of None \<Rightarrow> q | Some task \<Rightarrow> handler q task)"

definition status_rank :: "TaskStatus \<Rightarrow> nat" where
  \<comment> \<open>the position of a status on \<open>pending_payment \<rightarrow> paid \<rightarrow> in_progress \<rightarrow> {completed, failed}\<close>\<close>
  "status_rank s =
     (case s of pending_payment \<Rightarrow> 0 | paid \<Rightarrow> 1 | in_progress \<Rightarrow> 2
      | completed \<Rightarrow> 3 | failed \<Rightarrow> 3)"

definition through_store :: "TaskQueue \<Rightarrow> Task \<Rightarrow> Task" where
  \<comment> \<open>what \<open>getTask\<close> returns for a task written as \<open>t\<close>: the object itself in memory, the hash
      read back otherwise\<close>
  "through_store q t = (if useInMemory q then t else deserializeTask (serializeTask t))"

section \<open>Example ledger data\<close>

text \<open>
  Concrete receipts for the closed theorems below: the stablecoin contract on the main
  network, an agent, a payer and a third party, and Transfer logs of 5.00 and 4.99.
\<close>

definition usdc_base :: string where
  "usdc_base = ''0x833589fCD6eDb6E08f4c7C32D4f71b54bdA02913''"

definition agent_addr :: string where
  "agent_addr = ''0xAa11111111111111111111111111111111111111''"

definition payer_addr :: string where
  "payer_addr = ''0x2222222222222222222222222222222222222222''"

definition other_addr :: string where
  "other_addr = ''0x3333333333333333333333333333333333333333''"

definition topic_of :: "string \<Rightarrow> string" where
  \<comment> \<open>an address as a 32-byte indexed topic\<close>
  "topic_of a = ''0x'' @ replicate 24 CHR ''0'' @ toLowerCase (drop 2 a)"

definition word_of :: "string \<Rightarrow> string" where
  \<comment> \<open>hexadecimal digits as a 32-byte data word\<close>
  "word_of hex = ''0x'' @ padStart 64 CHR ''0'' hex"

definition transfer_log :: "string \<Rightarrow> string \<Rightarrow> string \<Rightarrow> Log" where
  "transfer_log from to hex =
     \<lparr>address = usdc_base, topics = [Transfer_signature, topic_of from, topic_of to],
      data = word_of hex\<rparr>"

definition empty_data_log :: Log where
  \<comment> \<open>a Transfer log to the third party whose data is the empty \<open>0x\<close>\<close>
  "empty_data_log = (transfer_log payer_addr other_addr ''4c4b40'')\<lparr>data := ''0x''\<rparr>"

definition handler_with :: "Log list \<Rightarrow> X402PaymentHandler" where
  \<comment> \<open>a handler whose ledger client answers every hash with a successful receipt of these logs\<close>
  "handler_with ls =
     \<lparr>account_address = agent_addr, usdcAddress = usdc_base,
      getTransactionReceipt = (\<lambda>hash. Inr (Some \<lparr>receipt_status = Success, logs = ls\<rparr>))\<rparr>"

definition proof_tx :: PaymentProof where
  "proof_tx = \<lparr>txHash = ''0xabc123'', proof_network = Base\<rparr>"

section \<open>Example tasks\<close>

text \<open>
  One request priced at 5, its payment messages, and skills that deliver, deliver nothing,
  or fail.
\<close>

definition clock_from :: "nat \<Rightarrow> nat \<Rightarrow> Date" where
  "clock_from t0 n = t0 + n"

definition poem_request :: CreateTaskData where
  "poem_request =
     \<lparr>d_channel = web, d_channelMessageId = ''m1'', d_senderId = ''anonymous'',
      d_senderAddress = None, d_description = ''write a poem'', d_category = ''writing'',
      d_priceUsdc = ''5'', d_status = Some pending_payment\<rparr>"

definition poem_task :: Task where
  \<comment> \<open>the task created from \<open>poem_request\<close> at time 1000 under the id \<open>t1\<close>\<close>
  "poem_task =
     \<lparr>task_id = ''t1'', status = pending_payment, channel = web, channelMessageId = ''m1'',
      senderId = ''anonymous'', senderAddress = None, description = ''write a poem'',
      category = ''writing'', priceUsdc = ''5'', paidTxHash = None, paidAt = None,
      startedAt = None, completedAt = None, deliverable = None, error = None,
      createdAt = 1000, updatedAt = 1001\<rparr>"

definition payment_message :: "string \<Rightarrow> IncomingMessage" where
  "payment_message txh =
     \<lparr>msg_channel = web, msg_channelMessageId = ''m2'', msg_senderId = ''anonymous'',
      msg_senderAddress = None, content = ''PAYMENT:t1:'' @ txh\<rparr>"

definition paying_handler :: X402PaymentHandler where
  "paying_handler = handler_with [transfer_log payer_addr agent_addr ''4c4b40'']"

definition skills_with :: "Skill \<Rightarrow> (string \<rightharpoonup> Skill)" where
  "skills_with sk = [''writing'' \<mapsto> sk]"

definition writing_skill :: Skill where
  "writing_skill ctx = Inr \<lparr>success = True, res_deliverable = ''a poem'', approach = ''rhyme''\<rparr>"

definition silent_skill :: Skill where
  "silent_skill ctx = Inr \<lparr>success = True, res_deliverable = [], approach = ''rhyme''\<rparr>"

definition failing_skill :: Skill where
  "failing_skill ctx = Inl ''model overloaded''"

definition run :: "Skill \<Rightarrow> nat \<Rightarrow> TaskQueue \<Rightarrow> TaskQueue" where
  \<comment> \<open>the processor runs task \<open>t1\<close> with a skill, from a clock reading on\<close>
  "run sk t0 q =
     process_job (\<lambda>q' task. executeTask (skills_with sk) (\<lambda>c. None) q' task (clock_from t0))
       q ''t1''"

definition pay :: "string \<Rightarrow> nat \<Rightarrow> TaskQueue \<Rightarrow> TaskQueue" where
  \<comment> \<open>a payment message for task \<open>t1\<close> arrives, the ledger showing 5.00 paid to the agent\<close>
  "pay txh t0 q =
     snd (handlePaymentVerification paying_handler q (payment_message txh) (clock_from t0))"

definition q_created :: "bool \<Rightarrow> TaskQueue" where
  "q_created mem = snd (createTask (empty_queue mem) poem_request ''t1'' (clock_from 1000))"

section \<open>Properties of rounding to a double\<close>
























lemma foldl_add_tool_keeps: "set bd \<subseteq> set (foldl add_tool bd tools)"
proof (induction tools arbitrary: bd)
  case Nil
  then show ?case by simp
next
  case (Cons t ts)
  have "set bd \<subseteq> set (add_tool bd t)" by (auto simp: add_tool_def Let_def)
  with Cons.IH [of "add_tool bd t"] show ?case by auto
qed











text \<open>
  Claim C6. The total is the rounded sum of the breakdown, at least 1.00, and an unknown
  category is priced as \<open>other\<close>. The fallback is written \<^verbatim>\<open>BASE_PRICES[category] || BASE_PRICES.other\<close>;
  for a category that names a member of \<^verbatim>\<open>Object.prototype\<close> the lookup yields that member,
  which is truthy, so the fallback is not taken: the base line carries a non-number and the
  total is \<open>NaN\<close>.
\<close>

theorem calculate_inherited_category:
  "calculate \<lparr>an_category = ''constructor'', an_complexity = CSimple,
                an_estimatedTokens = 2000, an_toolsRequired = []\<rparr>
   = \<lparr>total = NaN, breakdown = [\<lparr>item = ''constructor base'', amount = Obj\<rparr>]\<rparr>"
  by (simp add: calculate_def js_get_def BASE_PRICES_def Object_prototype_keys_def js_or_def)

section \<open>Payment verification\<close>

lemma find_first:
  assumes "\<forall>l\<in>set pre. \<not> P l" and "P x"
  shows "find P (pre @ x # rest) = Some x"
  using assms by (induction pre) simp_all

text \<open>
  Once the receipt is a success and \<^verbatim>\<open>find\<close> has returned a log whose data is an integer
  literal, the result is decided by the recipient, the amount and the sender, in that order.
\<close>

lemma verifyPayment_found:
  assumes "getTransactionReceipt h (txHash pr) = Inr (Some receipt)"
    and "receipt_status receipt = Success"
    and "find (is_transfer_log h) (logs receipt) = Some L"
    and "BigInt (data L) = Inr a"
  shows "verifyPayment h pr expectedAmount expectedSender =
     (if toLowerCase (topic_address L 2) \<noteq> toLowerCase (account_address h)
      then invalid ''Payment sent to wrong address''
      else case parseUnits expectedAmount USDC_DECIMALS of
         Inl e \<Rightarrow> invalid (''Verification failed: '' @ e)
       | Inr w \<Rightarrow>
           if a < w
           then invalid (''Insufficient payment: received '' @ formatUnits a USDC_DECIMALS
                          @ '' USDC, expected '' @ expectedAmount @ '' USDC'')
           else if (case expectedSender of None \<Rightarrow> False
                    | Some es \<Rightarrow> es \<noteq> [] \<and> toLowerCase (topic_address L 1) \<noteq> toLowerCase es)
           then invalid ''Payment from unexpected sender''
           else \<lparr>v_valid = True, v_sender = Some (topic_address L 1),
                  v_amount = Some (formatUnits a USDC_DECIMALS), v_error = None\<rparr>)"
  using assms
  by (simp add: verifyPayment_def verifyPayment_try_def Let_def
      split: sum.splits option.splits)

text \<open>The amount is decoded before the recipient is looked at.\<close>

lemma verifyPayment_undecodable:
  assumes "getTransactionReceipt h (txHash pr) = Inr (Some receipt)"
    and "receipt_status receipt = Success"
    and "find (is_transfer_log h) (logs receipt) = Some L"
    and "BigInt (data L) = Inl e"
  shows "verifyPayment h pr expectedAmount expectedSender = invalid (''Verification failed: '' @ e)"
  using assms
  by (simp add: verifyPayment_def verifyPayment_try_def Let_def)


lemma replicate_numeral: "replicate (numeral k) x = x # replicate (pred_numeral k) x"
  by (simp add: numeral_eq_Suc)

lemmas string_defs = replicate_numeral toLowerCase_def lower_char_def padStart_def padEnd_def
  digit_char_def digit_val_def is_digit_def radix_value_def parse_radix_def is_space_def
  trim_def dropWhileEnd_def strip_zeros_def

lemmas example_defs = usdc_base_def agent_addr_def payer_addr_def other_addr_def topic_of_def
  word_of_def transfer_log_def handler_with_def proof_tx_def

lemma parseUnits_five: "parseUnits ''5.00'' USDC_DECIMALS = Inr 5000000"
  by (simp add: parseUnits_def is_decimal_number_def BigInt_def USDC_DECIMALS_def string_defs)

lemma formatUnits_five: "formatUnits 5000000 USDC_DECIMALS = ''5''"
  by (simp add: formatUnits_def USDC_DECIMALS_def dec.simps string_defs)

lemma formatUnits_four_ninety_nine: "formatUnits 4990000 USDC_DECIMALS = ''4.99''"
  by (simp add: formatUnits_def USDC_DECIMALS_def dec.simps string_defs)

lemma example_receipt:
  "getTransactionReceipt (handler_with ls) hash = Inr (Some \<lparr>receipt_status = Success, logs = ls\<rparr>)"
  by (simp add: handler_with_def)

lemma example_log_facts:
  "is_transfer_log (handler_with ls) (transfer_log from to hex)"
  by (simp add: is_transfer_log_def handler_with_def transfer_log_def)

lemma example_amounts:
  "BigInt (data (transfer_log from to ''4c4b40'')) = Inr 5000000"
  "BigInt (data (transfer_log from to ''4c2430'')) = Inr 4990000"
  "BigInt (data (transfer_log from to ''f4240'')) = Inr 1000000"
  by (simp_all add: BigInt_def transfer_log_def word_of_def string_defs)

lemma example_recipients:
  "account_address (handler_with ls) = agent_addr"
  "toLowerCase (topic_address (transfer_log from agent_addr hex) 2) = toLowerCase agent_addr"
  "toLowerCase (topic_address (transfer_log from other_addr hex) 2) \<noteq> toLowerCase agent_addr"
  "topic_address (transfer_log payer_addr to hex) 1 = payer_addr"
  "topic_address (transfer_log payer_addr to hex) (Suc 0) = payer_addr"
  by (simp_all add: topic_address_def example_defs string_defs)

text \<open>
  Claim C4. With a successful receipt whose first stablecoin Transfer log pays the agent, an
  amount below the expected one (in base units) is refused as insufficient, and an amount
  equal to or above it is accepted when no sender is expected or the decoded sender is the
  expected one. The log examined is the one \<^verbatim>\<open>find\<close> returns, the first matching one; its
  data and the expected amount are taken to convert to base units.
\<close>

theorem verifyPayment_amount_check:
  assumes "getTransactionReceipt h (txHash pr) = Inr (Some receipt)"
    and "receipt_status receipt = Success"
    and "find (is_transfer_log h) (logs receipt) = Some L"
    and "toLowerCase (topic_address L 2) = toLowerCase (account_address h)"
    and "BigInt (data L) = Inr a"
    and "parseUnits expectedAmount USDC_DECIMALS = Inr w"
  shows "(a < w \<longrightarrow>
            verifyPayment h pr expectedAmount expectedSender =
              invalid (''Insufficient payment: received '' @ formatUnits a USDC_DECIMALS
                        @ '' USDC, expected '' @ expectedAmount @ '' USDC''))
       \<and> (w \<le> a \<longrightarrow>
            (case expectedSender of None \<Rightarrow> True
             | Some es \<Rightarrow> toLowerCase (topic_address L 1) = toLowerCase es) \<longrightarrow>
            verifyPayment h pr expectedAmount expectedSender =
              \<lparr>v_valid = True, v_sender = Some (topic_address L 1),
                 v_amount = Some (formatUnits a USDC_DECIMALS), v_error = None\<rparr>)"
  using assms(4,6)
  by (auto simp: verifyPayment_found [OF assms(1,2,3,5)] split: option.splits)

text \<open>A transfer of 4.99 against an expected 5.00 is refused; the sender is not consulted.\<close>

theorem verifyPayment_amount_check_witness:
  "find (is_transfer_log (handler_with [transfer_log payer_addr agent_addr ''4c2430'']))
        [transfer_log payer_addr agent_addr ''4c2430'']
     = Some (transfer_log payer_addr agent_addr ''4c2430'')
   \<and> BigInt (data (transfer_log payer_addr agent_addr ''4c2430'')) = Inr 4990000
   \<and> verifyPayment (handler_with [transfer_log payer_addr agent_addr ''4c2430'']) proof_tx
        ''5.00'' (Some other_addr)
     = invalid ''Insufficient payment: received 4.99 USDC, expected 5.00 USDC''"
proof -
  let ?L = "transfer_log payer_addr agent_addr ''4c2430''"
  let ?h = "handler_with [?L]"
  have h1: "getTransactionReceipt ?h (txHash proof_tx)
              = Inr (Some \<lparr>receipt_status = Success, logs = [?L]\<rparr>)"
    by (rule example_receipt)
  have h2: "receipt_status \<lparr>receipt_status = Success, logs = [?L]\<rparr> = Success"
    by simp
  have h3: "find (is_transfer_log ?h) (logs \<lparr>receipt_status = Success, logs = [?L]\<rparr>) = Some ?L"
    by (simp add: example_log_facts)
  have h4: "toLowerCase (topic_address ?L 2) = toLowerCase (account_address ?h)"
    by (simp add: example_recipients)
  have h5: "BigInt (data ?L) = Inr 4990000"
    by (rule example_amounts)
  have "(4990000::int) < 5000000" by simp
  with verifyPayment_amount_check [OF h1 h2 h3 h4 h5 parseUnits_five, of "Some other_addr"]
  have "verifyPayment ?h proof_tx ''5.00'' (Some other_addr)
          = invalid (''Insufficient payment: received '' @ formatUnits 4990000 USDC_DECIMALS
                      @ '' USDC, expected '' @ ''5.00'' @ '' USDC'')"
    by simp
  then show ?thesis
    using h3 h5 by (simp add: formatUnits_four_ninety_nine)
qed

text \<open>
  A receipt whose second Transfer log pays the agent the full 5.00, behind a first Transfer
  log to a third party, is refused.
\<close>

theorem verifyPayment_amount_check_counterexample:
  "transfer_log payer_addr agent_addr ''4c4b40''
     \<in> set [transfer_log payer_addr other_addr ''4c4b40'',
            transfer_log payer_addr agent_addr ''4c4b40'']
   \<and> toLowerCase (topic_address (transfer_log payer_addr agent_addr ''4c4b40'') 2)
       = toLowerCase agent_addr
   \<and> BigInt (data (transfer_log payer_addr agent_addr ''4c4b40'')) = Inr 5000000
   \<and> parseUnits ''5.00'' USDC_DECIMALS = Inr 5000000
   \<and> verifyPayment
        (handler_with [transfer_log payer_addr other_addr ''4c4b40'',
                       transfer_log payer_addr agent_addr ''4c4b40''])
        proof_tx ''5.00'' None
     = invalid ''Payment sent to wrong address''"
proof -
  let ?L1 = "transfer_log payer_addr other_addr ''4c4b40''"
  let ?L2 = "transfer_log payer_addr agent_addr ''4c4b40''"
  let ?h = "handler_with [?L1, ?L2]"
  have "find (is_transfer_log ?h) (logs \<lparr>receipt_status = Success, logs = [?L1, ?L2]\<rparr>)
          = Some ?L1"
    by (simp add: example_log_facts)
  from verifyPayment_found [OF example_receipt _ this example_amounts(1)]
  have "verifyPayment ?h proof_tx ''5.00'' None = invalid ''Payment sent to wrong address''"
    by (simp add: example_recipients)
  then show ?thesis
    by (simp add: example_recipients example_amounts parseUnits_five)
qed

text \<open>
  Claim C9. A successful receipt whose first matching Transfer log pays exactly 5.00 (five
  million base units) to the agent verifies against the expected amount \<open>5.00\<close> with no
  expected sender. The amount reported is the text \<^verbatim>\<open>formatUnits\<close> gives, which drops the
  trailing zeros: \<open>5\<close>.
\<close>

theorem verifyPayment_exact_five:
  assumes "getTransactionReceipt h (txHash pr) = Inr (Some receipt)"
    and "receipt_status receipt = Success"
    and "find (is_transfer_log h) (logs receipt) = Some L"
    and "toLowerCase (topic_address L 2) = toLowerCase (account_address h)"
    and "BigInt (data L) = Inr 5000000"
  shows "verifyPayment h pr ''5.00'' None =
           \<lparr>v_valid = True, v_sender = Some (topic_address L 1), v_amount = Some ''5'',
              v_error = None\<rparr>"
  using assms(4)
  by (simp add: verifyPayment_found [OF assms(1,2,3,5)] parseUnits_five formatUnits_five)

theorem verifyPayment_exact_five_witness:
  "BigInt (data (transfer_log payer_addr agent_addr ''4c4b40'')) = Inr 5000000
   \<and> verifyPayment (handler_with [transfer_log payer_addr agent_addr ''4c4b40'']) proof_tx
        ''5.00'' None
     = \<lparr>v_valid = True, v_sender = Some payer_addr, v_amount = Some ''5'', v_error = None\<rparr>"
proof -
  let ?L = "transfer_log payer_addr agent_addr ''4c4b40''"
  let ?h = "handler_with [?L]"
  have h1: "getTransactionReceipt ?h (txHash proof_tx)
              = Inr (Some \<lparr>receipt_status = Success, logs = [?L]\<rparr>)"
    by (rule example_receipt)
  have h2: "receipt_status \<lparr>receipt_status = Success, logs = [?L]\<rparr> = Success"
    by simp
  have h3: "find (is_transfer_log ?h) (logs \<lparr>receipt_status = Success, logs = [?L]\<rparr>) = Some ?L"
    by (simp add: example_log_facts)
  have h4: "toLowerCase (topic_address ?L 2) = toLowerCase (account_address ?h)"
    by (simp add: example_recipients)
  have h5: "BigInt (data ?L) = Inr 5000000"
    by (rule example_amounts)
  show ?thesis
    using verifyPayment_exact_five [OF h1 h2 h3 h4 h5] h5 by (simp add: example_recipients)
qed

theorem verifyPayment_exact_five_counterexample:
  "v_valid (verifyPayment (handler_with [transfer_log payer_addr agent_addr ''4c4b40''])
              proof_tx ''5.00'' None)
   \<and> v_amount (verifyPayment (handler_with [transfer_log payer_addr agent_addr ''4c4b40''])
                 proof_tx ''5.00'' None) = Some ''5''
   \<and> v_amount (verifyPayment (handler_with [transfer_log payer_addr agent_addr ''4c4b40''])
                 proof_tx ''5.00'' None) \<noteq> Some ''5.00''"
proof -
  let ?L = "transfer_log payer_addr agent_addr ''4c4b40''"
  let ?h = "handler_with [?L]"
  have "find (is_transfer_log ?h) (logs \<lparr>receipt_status = Success, logs = [?L]\<rparr>) = Some ?L"
    by (simp add: example_log_facts)
  from verifyPayment_found [OF example_receipt _ this example_amounts(1)]
  have "verifyPayment ?h proof_tx ''5.00'' None
          = \<lparr>v_valid = True, v_sender = Some payer_addr, v_amount = Some ''5'', v_error = None\<rparr>"
    by (simp add: example_recipients parseUnits_five formatUnits_five)
  then show ?thesis by simp
qed

text \<open>
  Claim C10. Only the first log of the receipt that comes from the stablecoin contract with
  the Transfer signature is examined: when its recipient is not the agent, verification fails
  whatever logs follow it, whatever amount is expected and whoever the expected sender is.
  The error is the wrong-address one when the data of that log decodes as an integer; when it
  does not, decoding throws before the recipient is checked and the error is the caught one.
\<close>

theorem verifyPayment_first_log_only:
  assumes "getTransactionReceipt h (txHash pr) = Inr (Some receipt)"
    and "receipt_status receipt = Success"
    and "logs receipt = pre @ L # rest"
    and "\<forall>l\<in>set pre. \<not> is_transfer_log h l"
    and "is_transfer_log h L"
    and "toLowerCase (topic_address L 2) \<noteq> toLowerCase (account_address h)"
  shows "verifyPayment h pr expectedAmount expectedSender =
           (case BigInt (data L) of
              Inr a \<Rightarrow> invalid ''Payment sent to wrong address''
            | Inl e \<Rightarrow> invalid (''Verification failed: '' @ e))"
proof -
  have f: "find (is_transfer_log h) (logs receipt) = Some L"
    unfolding assms(3) using assms(4,5) by (rule find_first)
  show ?thesis
  proof (cases "BigInt (data L)")
    case (Inl e)
    from verifyPayment_undecodable [OF assms(1,2) f Inl] Inl show ?thesis by simp
  next
    case (Inr a)
    from verifyPayment_found [OF assms(1,2) f Inr] assms(6) Inr show ?thesis by simp
  qed
qed

text \<open>
  A first Transfer log of 1.00 to a third party hides a second one of 5.00 to the agent.
\<close>

theorem verifyPayment_first_log_only_witness:
  "is_transfer_log (handler_with [transfer_log payer_addr other_addr ''f4240'',
                                  transfer_log payer_addr agent_addr ''4c4b40''])
     (transfer_log payer_addr agent_addr ''4c4b40'')
   \<and> toLowerCase (topic_address (transfer_log payer_addr agent_addr ''4c4b40'') 2)
       = toLowerCase agent_addr
   \<and> verifyPayment
        (handler_with [transfer_log payer_addr other_addr ''f4240'',
                       transfer_log payer_addr agent_addr ''4c4b40''])
        proof_tx ''5.00'' None
     = invalid ''Payment sent to wrong address''"
proof -
  let ?L1 = "transfer_log payer_addr other_addr ''f4240''"
  let ?L2 = "transfer_log payer_addr agent_addr ''4c4b40''"
  let ?h = "handler_with [?L1, ?L2]"
  have h1: "getTransactionReceipt ?h (txHash proof_tx)
              = Inr (Some \<lparr>receipt_status = Success, logs = [?L1, ?L2]\<rparr>)"
    by (rule example_receipt)
  have h2: "receipt_status \<lparr>receipt_status = Success, logs = [?L1, ?L2]\<rparr> = Success"
    by simp
  have h3: "logs \<lparr>receipt_status = Success, logs = [?L1, ?L2]\<rparr> = [] @ ?L1 # [?L2]"
    by simp
  have h4: "\<forall>l\<in>set []. \<not> is_transfer_log ?h l"
    by simp
  have h5: "is_transfer_log ?h ?L1"
    by (rule example_log_facts)
  have h6: "toLowerCase (topic_address ?L1 2) \<noteq> toLowerCase (account_address ?h)"
    by (simp add: example_recipients)
  have a: "toLowerCase (topic_address ?L2 2) = toLowerCase agent_addr"
    by (rule example_recipients)
  show ?thesis
    using verifyPayment_first_log_only [OF h1 h2 h3 h4 h5 h6, of "''5.00''" None] a
    by (simp add: example_log_facts example_amounts)
qed

text \<open>
  When the first Transfer log, to a third party, carries the empty data \<open>0x\<close>, the error is
  not the wrong-address one.
\<close>

theorem verifyPayment_first_log_only_counterexample:
  "is_transfer_log (handler_with [empty_data_log, transfer_log payer_addr agent_addr ''4c4b40''])
     empty_data_log
   \<and> toLowerCase (topic_address empty_data_log 2) \<noteq> toLowerCase agent_addr
   \<and> verifyPayment
        (handler_with [empty_data_log, transfer_log payer_addr agent_addr ''4c4b40''])
        proof_tx ''5.00'' None
     = invalid ''Verification failed: Cannot convert 0x to a BigInt''
   \<and> invalid ''Verification failed: Cannot convert 0x to a BigInt''
       \<noteq> invalid ''Payment sent to wrong address''"
proof -
  let ?L2 = "transfer_log payer_addr agent_addr ''4c4b40''"
  let ?h = "handler_with [empty_data_log, ?L2]"
  have m: "is_transfer_log ?h empty_data_log"
    by (simp add: is_transfer_log_def handler_with_def empty_data_log_def transfer_log_def)
  have r: "toLowerCase (topic_address empty_data_log 2) \<noteq> toLowerCase agent_addr"
    by (simp add: empty_data_log_def topic_address_def example_defs string_defs)
  have b: "BigInt (data empty_data_log) = Inl ''Cannot convert 0x to a BigInt''"
    by (simp add: empty_data_log_def BigInt_def string_defs)
  have "find (is_transfer_log ?h) (logs \<lparr>receipt_status = Success, logs = [empty_data_log, ?L2]\<rparr>)
          = Some empty_data_log"
    by (simp add: m)
  from verifyPayment_undecodable [OF example_receipt _ this b]
  have "verifyPayment ?h proof_tx ''5.00'' None
          = invalid ''Verification failed: Cannot convert 0x to a BigInt''"
    by simp
  with m r show ?thesis by (simp add: invalid_def)
qed

section \<open>The task store\<close>

lemma or_empty_or_undefined: "or_empty (or_undefined s) = s"
  by (simp add: or_empty_def or_undefined_def)

lemma or_undefined_or_empty: "or_undefined (or_empty x) = (if x = Some '''' then None else x)"
  by (cases x) (simp_all add: or_empty_def or_undefined_def)

lemma serialize_deserialize: "serializeTask (deserializeTask d) = d"
  by (simp add: serializeTask_def deserializeTask_def or_empty_or_undefined)

text \<open>
  Reading a hash back returns the task that was written exactly when none of its optional
  texts is present and empty.
\<close>

lemma deserialize_serialize:
  "deserializeTask (serializeTask t) = t \<longleftrightarrow>
     senderAddress t \<noteq> Some '''' \<and> paidTxHash t \<noteq> Some '''' \<and> deliverable t \<noteq> Some ''''
     \<and> error t \<noteq> Some ''''"
proof -
  have "deserializeTask (serializeTask t) =
          t\<lparr>senderAddress := or_undefined (or_empty (senderAddress t)),
            paidTxHash := or_undefined (or_empty (paidTxHash t)),
            deliverable := or_undefined (or_empty (deliverable t)),
            error := or_undefined (or_empty (error t))\<rparr>"
    by (simp add: serializeTask_def deserializeTask_def)
  then show ?thesis
    by (cases t) (auto simp: or_undefined_or_empty)
qed

lemma through_store_simps:
  "task_id (through_store q t) = task_id t"
  "status (through_store q t) = status t"
  "paidAt (through_store q t) = paidAt t"
  "startedAt (through_store q t) = startedAt t"
  "completedAt (through_store q t) = completedAt t"
  "priceUsdc (through_store q t) = priceUsdc t"
  "category (through_store q t) = category t"
  "description (through_store q t) = description t"
  "createdAt (through_store q t) = createdAt t"
  "updatedAt (through_store q t) = updatedAt t"
  by (simp_all add: through_store_def serializeTask_def deserializeTask_def)

lemma through_store_texts:
  "paidTxHash (through_store q t) =
     (if useInMemory q \<or> paidTxHash t \<noteq> Some '''' then paidTxHash t else None)"
  "deliverable (through_store q t) =
     (if useInMemory q \<or> deliverable t \<noteq> Some '''' then deliverable t else None)"
  "error (through_store q t) =
     (if useInMemory q \<or> error t \<noteq> Some '''' then error t else None)"
  "senderAddress (through_store q t) =
     (if useInMemory q \<or> senderAddress t \<noteq> Some '''' then senderAddress t else None)"
  by (simp_all add: through_store_def serializeTask_def deserializeTask_def
      or_undefined_or_empty)

lemma through_store_getTask:
  assumes "getTask q i = Some t"
  shows "through_store q t = t"
proof (cases "useInMemory q")
  case True
  then show ?thesis by (simp add: through_store_def)
next
  case False
  with assms obtain d where "t = deserializeTask d"
    by (auto simp: getTask_def)
  with False show ?thesis
    by (simp add: through_store_def serialize_deserialize)
qed

lemma getTask_texts_nonempty:
  assumes "getTask q i = Some t" and "\<not> useInMemory q"
  shows "paidTxHash t \<noteq> Some ''''" and "deliverable t \<noteq> Some ''''"
    and "error t \<noteq> Some ''''" and "senderAddress t \<noteq> Some ''''"
  using through_store_getTask [OF assms(1)] assms(2)
  by (simp_all add: through_store_def deserialize_serialize)

lemma useInMemory_updateTask [simp]:
  "useInMemory (snd (updateTask q j u now)) = useInMemory q"
  by (simp add: updateTask_def Let_def split: option.splits)

lemma useInMemory_enqueue [simp]: "useInMemory (enqueue q j) = useInMemory q"
  by (simp add: enqueue_def)

lemma getTask_enqueue [simp]: "getTask (enqueue q j) i = getTask q i"
  by (simp add: enqueue_def getTask_def)

text \<open>
  \<open>updateTask\<close> rewrites the record of its own task with the merged fields and leaves
  every other task alone; on an unknown id it changes nothing.
\<close>

lemma getTask_updateTask:
  "getTask (snd (updateTask q j u now)) i =
     (if i = j then map_option (\<lambda>e. through_store q (merge e u now)) (getTask q j)
      else getTask q i)"
proof (cases "getTask q j")
  case None
  then show ?thesis by (simp add: updateTask_def)
next
  case (Some e)
  then show ?thesis
    by (simp add: updateTask_def Let_def getTask_def through_store_def)
qed

lemma updateTask_unknown: "getTask q j = None \<Longrightarrow> updateTask q j u now = (None, q)"
  by (simp add: updateTask_def)

lemma getTask_createTask_same:
  "getTask (snd (createTask q d uuid now)) uuid
     = Some (through_store q (fst (createTask q d uuid now)))"
  by (simp add: createTask_def Let_def getTask_def through_store_def)

section \<open>The orchestrator\<close>

lemmas merge_fields = merge_def over_def no_update_def

lemma getTask_start_task:
  "getTask (start_task q j now) i =
     (if i = j
      then map_option
             (\<lambda>e. through_store q
                     (merge e (no_update\<lparr>u_status := Some in_progress,
                                          u_startedAt := Some (Some (now 0))\<rparr>) (now 1)))
             (getTask q j)
      else getTask q i)"
  by (simp add: start_task_def getTask_updateTask)

lemma getTask_mark_failed:
  "getTask (mark_failed q j message now) i =
     (if i = j
      then map_option
             (\<lambda>e. through_store q
                     (merge e (no_update\<lparr>u_status := Some failed,
                                          u_error := Some (Some message)\<rparr>) now))
             (getTask q j)
      else getTask q i)"
  by (simp add: mark_failed_def getTask_updateTask)

lemma useInMemory_start_task [simp]: "useInMemory (start_task q j now) = useInMemory q"
  by (simp add: start_task_def)

lemma useInMemory_mark_failed [simp]: "useInMemory (mark_failed q j m now) = useInMemory q"
  by (simp add: mark_failed_def)

lemma through_store_mode: "useInMemory q' = useInMemory q \<Longrightarrow> through_store q' t = through_store q t"
  by (simp add: through_store_def)

lemma through_store_after [simp]:
  "through_store (snd (updateTask q j u n)) t = through_store q t"
  "through_store (start_task q j now) t = through_store q t"
  "through_store (mark_failed q j m n) t = through_store q t"
  "through_store (enqueue q j) t = through_store q t"
  by (simp_all add: through_store_def)

text \<open>
  A payment message either leaves the store as it is, or it names a stored task and carries a
  proof that verifies: then the task is rewritten as paid and its id is queued.
\<close>

lemma handlePaymentVerification_store:
  "snd (handlePaymentVerification h q msg now) = q
   \<or> (\<exists>task v.
        3 \<le> length (split_on CHR '':'' (content msg))
        \<and> getTask q (split_on CHR '':'' (content msg) ! 1) = Some task
        \<and> v = verifyPayment h
                \<lparr>txHash = split_on CHR '':'' (content msg) ! 2, proof_network = Base\<rparr>
                (priceUsdc task) None
        \<and> v_valid v
        \<and> snd (handlePaymentVerification h q msg now) =
            enqueue
              (snd (updateTask q (split_on CHR '':'' (content msg) ! 1)
                      (no_update\<lparr>u_status := Some paid,
                                 u_paidTxHash := Some (Some (split_on CHR '':'' (content msg) ! 2)),
                                 u_paidAt := Some (Some (now 0)),
                                 u_senderAddress := Some (v_sender v)\<rparr>)
                      (now 1)))
              (split_on CHR '':'' (content msg) ! 1))"
  by (simp add: handlePaymentVerification_def Let_def split: option.splits)

lemma getTask_handlePaymentVerification:
  assumes "getTask q i = Some t"
  shows "getTask (snd (handlePaymentVerification h q msg now)) i = Some t
   \<or> (\<exists>sender.
        3 \<le> length (split_on CHR '':'' (content msg))
        \<and> i = split_on CHR '':'' (content msg) ! 1
        \<and> getTask (snd (handlePaymentVerification h q msg now)) i =
            Some (through_store q
                    (merge t (no_update\<lparr>u_status := Some paid,
                                 u_paidTxHash := Some (Some (split_on CHR '':'' (content msg) ! 2)),
                                 u_paidAt := Some (Some (now 0)),
                                 u_senderAddress := Some sender\<rparr>)
                       (now 1))))"
proof -
  let ?parts = "split_on CHR '':'' (content msg)"
  let ?q' = "snd (handlePaymentVerification h q msg now)"
  from handlePaymentVerification_store [of h q msg now] show ?thesis
  proof (elim disjE exE conjE)
    assume "?q' = q"
    with assms show ?thesis by simp
  next
    fix task v
    assume len: "3 \<le> length ?parts"
      and q': "?q' =
           enqueue
             (snd (updateTask q (?parts ! 1)
                     (no_update\<lparr>u_status := Some paid,
                                u_paidTxHash := Some (Some (?parts ! 2)),
                                u_paidAt := Some (Some (now 0)),
                                u_senderAddress := Some (v_sender v)\<rparr>)
                     (now 1)))
             (?parts ! 1)"
    show ?thesis
    proof (cases "i = ?parts ! 1")
      case True
      with q' assms have "getTask ?q' i =
            Some (through_store q
                    (merge t (no_update\<lparr>u_status := Some paid,
                                 u_paidTxHash := Some (Some (?parts ! 2)),
                                 u_paidAt := Some (Some (now 0)),
                                 u_senderAddress := Some (v_sender v)\<rparr>)
                       (now 1)))"
        by (simp add: getTask_updateTask)
      with True len show ?thesis by blast
    next
      case False
      with q' assms have "getTask ?q' i = Some t"
        by (simp add: getTask_updateTask)
      then show ?thesis by simp
    qed
  qed
qed

text \<open>The stored task after an execution, by the way the execution went.\<close>

lemma getTask_executeTask_other:
  "i \<noteq> task_id task \<Longrightarrow> getTask (executeTask skills memory_store q task now) i = getTask q i"
  by (simp add: executeTask_def Let_def getTask_mark_failed getTask_start_task
      getTask_updateTask split: option.splits sum.splits)

lemma getTask_executeTask_same:
  assumes "getTask q (task_id task) = Some t"
  shows "\<exists>t1. getTask (start_task q (task_id task) now) (task_id task) = Some t1
     \<and> t1 = through_store q
              (merge t (no_update\<lparr>u_status := Some in_progress,
                                   u_startedAt := Some (Some (now 0))\<rparr>) (now 1))
     \<and> getTask (executeTask skills memory_store q task now) (task_id task) =
        Some
         (case getSkill skills (category task) of
            None \<Rightarrow>
              through_store q
                (merge t1 (no_update\<lparr>u_status := Some failed,
                     u_error := Some (Some (''No skill found for category: '' @ category task))\<rparr>)
                   (now 2))
          | Some skill \<Rightarrow>
             (case skill \<lparr>ctx_taskId = task_id task, ctx_description = description task,
                           ctx_category = category task\<rparr> of
                Inl message \<Rightarrow>
                  through_store q
                    (merge t1 (no_update\<lparr>u_status := Some failed,
                                          u_error := Some (Some message)\<rparr>) (now 2))
              | Inr result \<Rightarrow>
                 (let t2 = through_store q
                             (merge t1 (no_update\<lparr>u_status := Some completed,
                                          u_completedAt := Some (Some (now 2)),
                                          u_deliverable := Some (Some (res_deliverable result))\<rparr>)
                                (now 3))
                  in case memory_store
                            (''Completed '' @ category task @ '' task: ''
                             @ take 100 (description task) @ ''. Approach: ''
                             @ approach result) of
                       None \<Rightarrow> t2
                     | Some message \<Rightarrow>
                         through_store q
                           (merge t2 (no_update\<lparr>u_status := Some failed,
                                                 u_error := Some (Some message)\<rparr>) (now 4)))))"
proof -
  let ?i = "task_id task"
  let ?t1 = "through_store q
              (merge t (no_update\<lparr>u_status := Some in_progress,
                                   u_startedAt := Some (Some (now 0))\<rparr>) (now 1))"
  have q1: "getTask (start_task q ?i now) ?i = Some ?t1"
    using assms by (simp add: getTask_start_task)
  show ?thesis
  proof (cases "getSkill skills (category task)")
    case None
    with q1 show ?thesis
      by (simp add: executeTask_def Let_def getTask_mark_failed)
  next
    case (Some skill)
    show ?thesis
    proof (cases "skill \<lparr>ctx_taskId = task_id task, ctx_description = description task,
                           ctx_category = category task\<rparr>")
      case (Inl message)
      with Some q1 show ?thesis
        by (simp add: executeTask_def Let_def getTask_mark_failed)
    next
      case (Inr result)
      show ?thesis
      proof (cases "memory_store
                      (''Completed '' @ category task @ '' task: ''
                       @ take 100 (description task) @ ''. Approach: ''
                       @ approach result)")
        case None
        with Inr Some q1 show ?thesis
          by (simp add: executeTask_def Let_def getTask_updateTask)
      next
        case (Some message)
        with Inr \<open>getSkill skills (category task) = Some skill\<close> q1 show ?thesis
          by (simp add: executeTask_def Let_def getTask_updateTask getTask_mark_failed)
      qed
    qed
  qed
qed

section \<open>Lifecycle of a task\<close>

lemma handlePaymentVerification_valid:
  assumes "split_on CHR '':'' (content msg) = p0 # taskId # txh # rest"
    and "getTask q taskId = Some task"
    and "v_valid (verifyPayment h \<lparr>txHash = txh, proof_network = Base\<rparr> (priceUsdc task) None)"
  shows "handlePaymentVerification h q msg now =
     (\<lparr>r_content = verified_text taskId (priceUsdc task) txh, r_taskId = Some taskId\<rparr>,
      enqueue
        (snd (updateTask q taskId
                (no_update\<lparr>u_status := Some paid,
                           u_paidTxHash := Some (Some txh),
                           u_paidAt := Some (Some (now 0)),
                           u_senderAddress :=
                             Some (v_sender (verifyPayment h
                                     \<lparr>txHash = txh, proof_network = Base\<rparr>
                                     (priceUsdc task) None))\<rparr>)
                (now 1)))
        taskId)"
  using assms by (simp add: handlePaymentVerification_def Let_def)

lemma handlePaymentVerification_invalid:
  assumes "split_on CHR '':'' (content msg) = p0 # taskId # txh # rest"
    and "getTask q taskId = Some task"
    and "verifyPayment h \<lparr>txHash = txh, proof_network = Base\<rparr> (priceUsdc task) None
           = invalid e"
  shows "handlePaymentVerification h q msg now =
     (\<lparr>r_content = ''Payment verification failed: '' @ e, r_taskId = None\<rparr>, q)"
  using assms by (simp add: handlePaymentVerification_def Let_def invalid_def)

lemma status_rank_simps [simp]:
  "status_rank pending_payment = 0" "status_rank paid = 1" "status_rank in_progress = 2"
  "status_rank completed = 3" "status_rank failed = 3"
  by (simp_all add: status_rank_def)

lemma status_rank_le_3: "status_rank s \<le> 3"
  by (cases s) simp_all

text \<open>
  The stored task after a payment message: rewritten as paid when the message names it and
  its proof verifies against its price, the very same otherwise.
\<close>

lemma getTask_handlePaymentVerification_cases:
  assumes "getTask q i = Some t"
  shows "getTask (snd (handlePaymentVerification h q msg now)) i =
     Some
      (let parts = split_on CHR '':'' (content msg);
           v = verifyPayment h \<lparr>txHash = parts ! 2, proof_network = Base\<rparr> (priceUsdc t) None
       in if 3 \<le> length parts \<and> parts ! 1 = i \<and> v_valid v
          then through_store q
                 (merge t (no_update\<lparr>u_status := Some paid,
                                      u_paidTxHash := Some (Some (parts ! 2)),
                                      u_paidAt := Some (Some (now 0)),
                                      u_senderAddress := Some (v_sender v)\<rparr>)
                    (now 1))
          else t)"
proof (cases "split_on CHR '':'' (content msg) ! 1 = i")
  case True
  with assms show ?thesis
    by (simp add: handlePaymentVerification_def Let_def getTask_updateTask)
next
  case False
  with assms show ?thesis
    by (simp add: handlePaymentVerification_def Let_def getTask_updateTask
        split: option.splits)
qed

text \<open>A task read from the store holds no empty optional text, so writing it back keeps it.\<close>

lemma stored_texts:
  assumes "getTask q i = Some t"
  shows "useInMemory q \<or> paidTxHash t \<noteq> Some []"
    and "useInMemory q \<or> deliverable t \<noteq> Some []"
    and "useInMemory q \<or> error t \<noteq> Some []"
    and "useInMemory q \<or> senderAddress t \<noteq> Some []"
  using getTask_texts_nonempty [OF assms] by blast+

lemma or_empty_through_store:
  "or_empty (paidTxHash (through_store q t)) = or_empty (paidTxHash t)"
  "or_empty (deliverable (through_store q t)) = or_empty (deliverable t)"
  "or_empty (error (through_store q t)) = or_empty (error t)"
  by (simp_all add: through_store_texts or_empty_def)

section \<open>The example task through its lifecycle\<close>

lemma split_on_no_sep: "c \<notin> set s \<Longrightarrow> split_on c s = [s]"
  by (induction s) auto

lemma split_payment_message:
  "CHR '':'' \<notin> set txh \<Longrightarrow>
     split_on CHR '':'' (content (payment_message txh)) = [''PAYMENT'', ''t1'', txh]"
  by (simp add: payment_message_def split_on_no_sep)

lemma parseUnits_five_plain: "parseUnits ''5'' USDC_DECIMALS = Inr 5000000"
  by (simp add: parseUnits_def is_decimal_number_def BigInt_def USDC_DECIMALS_def string_defs)

lemma paying_handler_verifies:
  "verifyPayment paying_handler \<lparr>txHash = txh, proof_network = Base\<rparr> ''5'' None
     = \<lparr>v_valid = True, v_sender = Some payer_addr, v_amount = Some ''5'', v_error = None\<rparr>"
proof -
  let ?L = "transfer_log payer_addr agent_addr ''4c4b40''"
  have "find (is_transfer_log (handler_with [?L]))
          (logs \<lparr>receipt_status = Success, logs = [?L]\<rparr>) = Some ?L"
    by (simp add: example_log_facts)
  from verifyPayment_found [OF example_receipt _ this example_amounts(1)]
  show ?thesis
    by (simp add: paying_handler_def example_recipients parseUnits_five_plain formatUnits_five)
qed

lemma useInMemory_createTask [simp]:
  "useInMemory (snd (createTask q d uuid now)) = useInMemory q"
  by (simp add: createTask_def Let_def)

lemma useInMemory_handlePaymentVerification [simp]:
  "useInMemory (snd (handlePaymentVerification h q msg now)) = useInMemory q"
  using handlePaymentVerification_store [of h q msg now] by auto

lemma useInMemory_executeTask [simp]:
  "useInMemory (executeTask skills memory_store q task now) = useInMemory q"
  by (simp add: executeTask_def Let_def split: option.splits sum.splits)

lemma useInMemory_examples [simp]:
  "useInMemory (q_created mem) = mem"
  "useInMemory (pay txh t0 q) = useInMemory q"
  "useInMemory (run sk t0 q) = useInMemory q"
  by (simp_all add: q_created_def empty_queue_def pay_def run_def process_job_def
      split: option.splits)

lemma through_store_poem_task [simp]: "through_store q poem_task = poem_task"
  by (simp add: through_store_def deserialize_serialize poem_task_def)

lemma getTask_q_created: "getTask (q_created mem) ''t1'' = Some poem_task"
proof -
  have "fst (createTask (empty_queue mem) poem_request ''t1'' (clock_from 1000)) = poem_task"
    by (simp add: createTask_def Let_def poem_request_def poem_task_def clock_from_def)
  then show ?thesis
    by (simp add: q_created_def getTask_createTask_same)
qed

text \<open>A payment message for the example task is accepted whatever the task's status.\<close>

lemma getTask_pay:
  assumes "getTask q ''t1'' = Some t" and "priceUsdc t = ''5''" and "CHR '':'' \<notin> set txh"
  shows "getTask (pay txh t0 q) ''t1'' =
     Some (through_store q
             (merge t (no_update\<lparr>u_status := Some paid,
                                  u_paidTxHash := Some (Some txh),
                                  u_paidAt := Some (Some t0),
                                  u_senderAddress := Some (Some payer_addr)\<rparr>)
                (t0 + 1)))"
proof -
  have "v_valid (verifyPayment paying_handler \<lparr>txHash = txh, proof_network = Base\<rparr>
                  (priceUsdc t) None)"
    by (simp add: assms(2) paying_handler_verifies)
  from handlePaymentVerification_valid
         [OF split_payment_message [OF assms(3)] assms(1) this, of "clock_from t0"]
  show ?thesis
    using assms(1)
    by (simp add: pay_def assms(2) paying_handler_verifies getTask_updateTask clock_from_def)
qed

lemma getTask_run:
  assumes "getTask q ''t1'' = Some t" and "task_id t = ''t1''" and "category t = ''writing''"
  shows "getTask (run sk t0 q) ''t1'' =
     Some
      (case sk \<lparr>ctx_taskId = ''t1'', ctx_description = description t,
                 ctx_category = ''writing''\<rparr> of
         Inl message \<Rightarrow>
           through_store q
             (merge (through_store q
                       (merge t (no_update\<lparr>u_status := Some in_progress,
                                            u_startedAt := Some (Some t0)\<rparr>) (t0 + 1)))
                (no_update\<lparr>u_status := Some failed, u_error := Some (Some message)\<rparr>)
                (t0 + 2))
       | Inr result \<Rightarrow>
           through_store q
             (merge (through_store q
                       (merge t (no_update\<lparr>u_status := Some in_progress,
                                            u_startedAt := Some (Some t0)\<rparr>) (t0 + 1)))
                (no_update\<lparr>u_status := Some completed,
                           u_completedAt := Some (Some (t0 + 2)),
                           u_deliverable := Some (Some (res_deliverable result))\<rparr>)
                (t0 + 3)))"
proof -
  have t: "getTask q (task_id t) = Some t"
    using assms(1,2) by simp
  have sk: "getSkill (skills_with sk) ''writing'' = Some sk"
    by (simp add: getSkill_def skills_with_def)
  have "getTask (run sk t0 q) ''t1'' =
          getTask (executeTask (skills_with sk) (\<lambda>c. None) q t (clock_from t0)) (task_id t)"
    using assms by (simp add: run_def process_job_def)
  also have "\<dots> = Some
      (case sk \<lparr>ctx_taskId = ''t1'', ctx_description = description t,
                 ctx_category = ''writing''\<rparr> of
         Inl message \<Rightarrow>
           through_store q
             (merge (through_store q
                       (merge t (no_update\<lparr>u_status := Some in_progress,
                                            u_startedAt := Some (Some t0)\<rparr>) (t0 + 1)))
                (no_update\<lparr>u_status := Some failed, u_error := Some (Some message)\<rparr>)
                (t0 + 2))
       | Inr result \<Rightarrow>
           through_store q
             (merge (through_store q
                       (merge t (no_update\<lparr>u_status := Some in_progress,
                                            u_startedAt := Some (Some t0)\<rparr>) (t0 + 1)))
                (no_update\<lparr>u_status := Some completed,
                           u_completedAt := Some (Some (t0 + 2)),
                           u_deliverable := Some (Some (res_deliverable result))\<rparr>)
                (t0 + 3)))"
  proof -
    from getTask_executeTask_same [OF t, of "clock_from t0" "skills_with sk" "\<lambda>c. None"]
    obtain t1 where t1: "t1 = through_store q
              (merge t (no_update\<lparr>u_status := Some in_progress,
                                   u_startedAt := Some (Some (clock_from t0 0))\<rparr>)
                 (clock_from t0 1))"
      and e: "getTask (executeTask (skills_with sk) (\<lambda>c. None) q t (clock_from t0)) (task_id t) =
        Some
         (case getSkill (skills_with sk) (category t) of
            None \<Rightarrow>
              through_store q
                (merge t1 (no_update\<lparr>u_status := Some failed,
                     u_error := Some (Some (''No skill found for category: '' @ category t))\<rparr>)
                   (clock_from t0 2))
          | Some skill \<Rightarrow>
             (case skill \<lparr>ctx_taskId = task_id t, ctx_description = description t,
                           ctx_category = category t\<rparr> of
                Inl message \<Rightarrow>
                  through_store q
                    (merge t1 (no_update\<lparr>u_status := Some failed,
                                          u_error := Some (Some message)\<rparr>) (clock_from t0 2))
              | Inr result \<Rightarrow>
                 (let t2 = through_store q
                             (merge t1 (no_update\<lparr>u_status := Some completed,
                                          u_completedAt := Some (Some (clock_from t0 2)),
                                          u_deliverable := Some (Some (res_deliverable result))\<rparr>)
                                (clock_from t0 3))
                  in case (\<lambda>c. None)
                            (''Completed '' @ category t @ '' task: ''
                             @ take 100 (description t) @ ''. Approach: ''
                             @ approach result) of
                       None \<Rightarrow> t2
                     | Some message \<Rightarrow>
                         through_store q
                           (merge t2 (no_update\<lparr>u_status := Some failed,
                                                 u_error := Some (Some message)\<rparr>)
                              (clock_from t0 4)))))"
      by blast
    show ?thesis
      unfolding e t1
      by (cases "sk \<lparr>ctx_taskId = ''t1'', ctx_description = description t,
                      ctx_category = ''writing''\<rparr>")
         (simp_all add: sk assms(2,3) clock_from_def)
  qed
  finally show ?thesis .
qed

lemmas scenario_defs = merge_fields through_store_def serializeTask_def deserializeTask_def
  or_empty_def or_undefined_def poem_task_def clock_from_def skills_with_def getSkill_def
  writing_skill_def silent_skill_def failing_skill_def payer_addr_def

lemma paid_example:
  "getTask (pay ''0xabc1'' 2000 (q_created mem)) ''t1'' =
     Some (poem_task\<lparr>status := paid, senderAddress := Some payer_addr,
                     paidTxHash := Some ''0xabc1'', paidAt := Some 2000, updatedAt := 2001\<rparr>)"
  by (simp add: getTask_pay [OF getTask_q_created] scenario_defs)

lemma done_example:
  "getTask (run writing_skill 3000 (pay ''0xabc1'' 2000 (q_created mem))) ''t1'' =
     Some (poem_task\<lparr>status := completed, senderAddress := Some payer_addr,
                     paidTxHash := Some ''0xabc1'', paidAt := Some 2000,
                     startedAt := Some 3000, completedAt := Some 3002,
                     deliverable := Some ''a poem'', updatedAt := 3003\<rparr>)"
  by (subst getTask_run [OF paid_example]) (simp_all add: scenario_defs)

lemma failed_example:
  "getTask (run failing_skill 3000 (pay ''0xabc1'' 2000 (q_created mem))) ''t1'' =
     Some (poem_task\<lparr>status := failed, senderAddress := Some payer_addr,
                     paidTxHash := Some ''0xabc1'', paidAt := Some 2000,
                     startedAt := Some 3000, error := Some ''model overloaded'',
                     updatedAt := 3002\<rparr>)"
  by (subst getTask_run [OF paid_example]) (simp_all add: scenario_defs)

section \<open>What the lifecycle guarantees\<close>

text \<open>
  The statements below are about one stored task, \<open>getTask q i = Some t\<close>, and one operation
  of the orchestrator on the store: a payment message, the queueing of an id, or the
  execution of a task. The store's own operations are taken not to fail.
\<close>

text \<open>
  Claim C1. The status of a task advances along
  \<open>pending_payment \<rightarrow> paid \<rightarrow> in_progress \<rightarrow> {completed, failed}\<close> only as far as each
  operation meets the task where it expects it; neither the payment handler nor the executor
  looks at the current status before writing the next one. A payment message sets the status
  to \<open>paid\<close> when it names the task and its proof verifies against the task's price, and
  leaves it as it is otherwise: no step back for a task that is \<open>pending_payment\<close> or
  \<open>paid\<close>. Queueing changes no task. An execution sets its task to \<open>in_progress\<close> and then
  to \<open>completed\<close> or \<open>failed\<close>, no step back for a task that is not yet finished, and
  leaves every other task alone.
\<close>

theorem status_advances_in_order:
  assumes "getTask q i = Some t"
  shows "(\<exists>t'. getTask (snd (handlePaymentVerification h q msg now)) i = Some t'
            \<and> status t' =
                (let parts = split_on CHR '':'' (content msg)
                 in if 3 \<le> length parts \<and> parts ! 1 = i
                       \<and> v_valid (verifyPayment h \<lparr>txHash = parts ! 2, proof_network = Base\<rparr>
                                    (priceUsdc t) None)
                    then paid else status t)
            \<and> (status t = pending_payment \<or> status t = paid
                 \<longrightarrow> status_rank (status t) \<le> status_rank (status t')))
       \<and> getTask (enqueue q j) i = Some t
       \<and> (\<exists>t1 t2. getTask (start_task q (task_id task) now') i = Some t1
            \<and> getTask (executeTask skills memory_store q task now') i = Some t2
            \<and> (if i = task_id task
                then status t1 = in_progress \<and> (status t2 = completed \<or> status t2 = failed)
                else status t1 = status t \<and> status t2 = status t)
            \<and> (status t \<noteq> completed \<and> status t \<noteq> failed
                 \<longrightarrow> status_rank (status t) \<le> status_rank (status t1)
                     \<and> status_rank (status t1) \<le> status_rank (status t2)))"
proof (intro conjI)
  let ?t' = "the (getTask (snd (handlePaymentVerification h q msg now)) i)"
  have t': "getTask (snd (handlePaymentVerification h q msg now)) i = Some ?t'"
    by (simp add: getTask_handlePaymentVerification_cases [OF assms])
  have st: "status ?t' =
                (let parts = split_on CHR '':'' (content msg)
                 in if 3 \<le> length parts \<and> parts ! 1 = i
                       \<and> v_valid (verifyPayment h \<lparr>txHash = parts ! 2, proof_network = Base\<rparr>
                                    (priceUsdc t) None)
                    then paid else status t)"
    by (simp add: getTask_handlePaymentVerification_cases [OF assms] Let_def
        through_store_simps merge_fields)
  then have "status ?t' = status t \<or> status ?t' = paid"
    by (simp add: Let_def split: if_splits)
  then have "status t = pending_payment \<or> status t = paid
          \<longrightarrow> status_rank (status t) \<le> status_rank (status ?t')"
    by auto
  with t' st
  show "\<exists>t'. getTask (snd (handlePaymentVerification h q msg now)) i = Some t'
            \<and> status t' =
                (let parts = split_on CHR '':'' (content msg)
                 in if 3 \<le> length parts \<and> parts ! 1 = i
                       \<and> v_valid (verifyPayment h \<lparr>txHash = parts ! 2, proof_network = Base\<rparr>
                                    (priceUsdc t) None)
                    then paid else status t)
            \<and> (status t = pending_payment \<or> status t = paid
                 \<longrightarrow> status_rank (status t) \<le> status_rank (status t'))"
    by blast
next
  show "getTask (enqueue q j) i = Some t"
    using assms by simp
next
  show "\<exists>t1 t2. getTask (start_task q (task_id task) now') i = Some t1
            \<and> getTask (executeTask skills memory_store q task now') i = Some t2
            \<and> (if i = task_id task
                then status t1 = in_progress \<and> (status t2 = completed \<or> status t2 = failed)
                else status t1 = status t \<and> status t2 = status t)
            \<and> (status t \<noteq> completed \<and> status t \<noteq> failed
                 \<longrightarrow> status_rank (status t) \<le> status_rank (status t1)
                     \<and> status_rank (status t1) \<le> status_rank (status t2))"
  proof (cases "i = task_id task")
    case False
    with assms show ?thesis
      by (simp add: getTask_start_task getTask_executeTask_other)
  next
    case True
    with assms have "getTask q (task_id task) = Some t" by simp
    from getTask_executeTask_same [OF this, of now' skills memory_store]
    obtain t1 t2 where t1: "getTask (start_task q (task_id task) now') (task_id task) = Some t1"
      and s1: "status t1 = in_progress"
      and t2: "getTask (executeTask skills memory_store q task now') (task_id task) = Some t2"
      and s2: "status t2 = completed \<or> status t2 = failed"
      by (auto simp: through_store_simps merge_fields Let_def split: option.splits sum.splits)
    have "status t \<noteq> completed \<and> status t \<noteq> failed
            \<Longrightarrow> status_rank (status t) \<le> status_rank (status t1)
                \<and> status_rank (status t1) \<le> status_rank (status t2)"
      using s1 s2 by (cases "status t") auto
    with True t1 s1 t2 s2 show ?thesis by auto
  qed
qed

text \<open>
  The example task, paid: a second payment keeps it paid, and an execution with a skill that
  delivers takes it through \<open>in_progress\<close> to \<open>completed\<close>.
\<close>

theorem status_advances_in_order_witness:
  "getTask (pay ''0xabc1'' 2000 (q_created True)) ''t1'' =
     Some (poem_task\<lparr>status := paid, senderAddress := Some payer_addr,
                     paidTxHash := Some ''0xabc1'', paidAt := Some 2000, updatedAt := 2001\<rparr>)
   \<and> map_option status
        (getTask (pay ''0xabc2'' 4000 (pay ''0xabc1'' 2000 (q_created True))) ''t1'') = Some paid
   \<and> map_option status
        (getTask (start_task (pay ''0xabc1'' 2000 (q_created True)) ''t1'' (clock_from 3000))
           ''t1'') = Some in_progress
   \<and> map_option status
        (getTask (run writing_skill 3000 (pay ''0xabc1'' 2000 (q_created True))) ''t1'')
       = Some completed"
proof -
  let ?q = "pay ''0xabc1'' 2000 (q_created True)"
  let ?t = "poem_task\<lparr>status := paid, senderAddress := Some payer_addr,
                     paidTxHash := Some ''0xabc1'', paidAt := Some 2000, updatedAt := 2001\<rparr>"
  have g: "getTask ?q ''t1'' = Some ?t"
    by (rule paid_example)
  have i: "task_id ?t = ''t1''" and s: "status ?t = paid"
    by (simp_all add: poem_task_def)
  from status_advances_in_order
         [OF g, where h = paying_handler and msg = "payment_message ''0xabc2''"
            and now = "clock_from 4000" and task = ?t and now' = "clock_from 3000"
            and skills = "skills_with writing_skill" and memory_store = "\<lambda>c. None"]
  obtain t' t1 where
    a: "getTask (snd (handlePaymentVerification paying_handler ?q (payment_message ''0xabc2'')
                        (clock_from 4000))) ''t1'' = Some t'"
    and b: "status_rank (status ?t) \<le> status_rank (status t')"
    and b': "status t' = paid \<or> status t' = status ?t"
    and c: "getTask (start_task ?q (task_id ?t) (clock_from 3000)) ''t1'' = Some t1"
    and d: "status t1 = in_progress"
    unfolding i s by (auto simp: Let_def split: if_splits)
  from b' s have "status t' = paid" by auto
  with a have 1: "map_option status (getTask (pay ''0xabc2'' 4000 ?q) ''t1'') = Some paid"
    by (simp add: pay_def)
  from c d i have 2: "map_option status (getTask (start_task ?q ''t1'' (clock_from 3000)) ''t1'')
                        = Some in_progress"
    by simp
  have 3: "map_option status (getTask (run writing_skill 3000 ?q) ''t1'') = Some completed"
    by (simp add: done_example)
  from g 1 2 3 show ?thesis by simp
qed

text \<open>
  The example task, paid and completed; then the payment message arrives again, and the task
  is \<open>paid\<close> once more. In memory and in the external store alike.
\<close>

theorem status_advances_in_order_counterexample:
  "map_option status
     (getTask (run writing_skill 3000 (pay ''0xabc1'' 2000 (q_created True))) ''t1'')
     = Some completed
   \<and> map_option status
       (getTask (pay ''0xabc1'' 4000 (run writing_skill 3000 (pay ''0xabc1'' 2000 (q_created True))))
          ''t1'')
     = Some paid
   \<and> map_option status
       (getTask (run writing_skill 3000 (pay ''0xabc1'' 2000 (q_created False))) ''t1'')
     = Some completed
   \<and> map_option status
       (getTask (pay ''0xabc1'' 4000 (run writing_skill 3000 (pay ''0xabc1'' 2000 (q_created False))))
          ''t1'')
     = Some paid"
  by (simp add: done_example getTask_pay [OF done_example] scenario_defs)

text \<open>
  Claim C2. \<open>paidTxHash\<close> and \<open>paidAt\<close> are written by the payment handler and by nothing
  else, but not once only: every payment message that names the task with a proof that
  verifies against its price sets the status to \<open>paid\<close>, \<open>paidTxHash\<close> to the hash of the
  message and \<open>paidAt\<close> to the time of the call, whatever the status was and whether or not
  the fields were set; any other payment message leaves the task as it is. Queueing and
  execution keep both fields. (An empty hash is read back from the external store as absent,
  hence \<open>or_empty\<close>.)
\<close>

theorem payment_fields_written_on_every_accepted_payment:
  assumes "getTask q i = Some t"
  shows "(\<exists>t'. getTask (snd (handlePaymentVerification h q msg now)) i = Some t'
            \<and> (let parts = split_on CHR '':'' (content msg)
               in if 3 \<le> length parts \<and> parts ! 1 = i
                     \<and> v_valid (verifyPayment h \<lparr>txHash = parts ! 2, proof_network = Base\<rparr>
                                  (priceUsdc t) None)
                  then status t' = paid \<and> or_empty (paidTxHash t') = parts ! 2
                       \<and> paidAt t' = Some (now 0)
                  else t' = t))
       \<and> getTask (enqueue q j) i = Some t
       \<and> (\<exists>t1 t2. getTask (start_task q (task_id task) now') i = Some t1
            \<and> getTask (executeTask skills memory_store q task now') i = Some t2
            \<and> paidTxHash t1 = paidTxHash t \<and> paidAt t1 = paidAt t
            \<and> paidTxHash t2 = paidTxHash t \<and> paidAt t2 = paidAt t)"
proof (intro conjI)
  show "\<exists>t'. getTask (snd (handlePaymentVerification h q msg now)) i = Some t'
            \<and> (let parts = split_on CHR '':'' (content msg)
               in if 3 \<le> length parts \<and> parts ! 1 = i
                     \<and> v_valid (verifyPayment h \<lparr>txHash = parts ! 2, proof_network = Base\<rparr>
                                  (priceUsdc t) None)
                  then status t' = paid \<and> or_empty (paidTxHash t') = parts ! 2
                       \<and> paidAt t' = Some (now 0)
                  else t' = t)"
    by (simp add: getTask_handlePaymentVerification_cases [OF assms] Let_def
        through_store_simps or_empty_through_store)
       (simp add: merge_fields or_empty_def)
next
  show "getTask (enqueue q j) i = Some t"
    using assms by simp
next
  show "\<exists>t1 t2. getTask (start_task q (task_id task) now') i = Some t1
            \<and> getTask (executeTask skills memory_store q task now') i = Some t2
            \<and> paidTxHash t1 = paidTxHash t \<and> paidAt t1 = paidAt t
            \<and> paidTxHash t2 = paidTxHash t \<and> paidAt t2 = paidAt t"
  proof (cases "i = task_id task")
    case False
    with assms show ?thesis
      by (simp add: getTask_start_task getTask_executeTask_other)
  next
    case True
    with assms have g: "getTask q (task_id task) = Some t" by simp
    note nonempty = stored_texts [OF g]
    from getTask_executeTask_same [OF g, of now' skills memory_store]
    obtain t1 t2 where t1: "getTask (start_task q (task_id task) now') (task_id task) = Some t1"
      and t2: "getTask (executeTask skills memory_store q task now') (task_id task) = Some t2"
      and k1: "paidTxHash t1 = paidTxHash t \<and> paidAt t1 = paidAt t"
      and k2: "paidTxHash t2 = paidTxHash t \<and> paidAt t2 = paidAt t"
      using nonempty(1)
      by (auto simp: through_store_simps through_store_texts merge_fields Let_def
          split: option.splits sum.splits)
    with True show ?thesis by auto
  qed
qed

text \<open>
  The example task is paid with one hash at time 2000; the fields hold that payment, and
  its execution keeps them.
\<close>

theorem payment_fields_written_on_every_accepted_payment_witness:
  "getTask (q_created True) ''t1'' = Some poem_task
   \<and> map_option (\<lambda>t. (status t, paidTxHash t, paidAt t))
        (getTask (pay ''0xabc1'' 2000 (q_created True)) ''t1'')
       = Some (paid, Some ''0xabc1'', Some 2000)
   \<and> map_option (\<lambda>t. (paidTxHash t, paidAt t))
        (getTask (run writing_skill 3000 (q_created True)) ''t1'')
       = Some (None, None)"
proof -
  let ?q = "q_created True"
  have g: "getTask ?q ''t1'' = Some poem_task"
    by (rule getTask_q_created)
  have i: "task_id poem_task = ''t1''"
    by (simp add: poem_task_def)
  have v: "v_valid (verifyPayment paying_handler \<lparr>txHash = ''0xabc1'', proof_network = Base\<rparr>
                     (priceUsdc poem_task) None)"
    by (simp add: poem_task_def paying_handler_verifies)
  have r: "run writing_skill 3000 ?q =
             executeTask (skills_with writing_skill) (\<lambda>c. None) ?q poem_task (clock_from 3000)"
    by (simp add: run_def process_job_def g)
  from payment_fields_written_on_every_accepted_payment
         [OF g, where h = paying_handler and msg = "payment_message ''0xabc1''"
            and now = "clock_from 2000" and task = poem_task and now' = "clock_from 3000"
            and skills = "skills_with writing_skill" and memory_store = "\<lambda>c. None"]
  obtain t' t2 where
    a: "getTask (pay ''0xabc1'' 2000 ?q) ''t1'' = Some t'"
    and b: "status t' = paid" "or_empty (paidTxHash t') = ''0xabc1''" "paidAt t' = Some 2000"
    and c: "getTask (run writing_skill 3000 ?q) ''t1'' = Some t2"
    and d: "paidTxHash t2 = paidTxHash poem_task" "paidAt t2 = paidAt poem_task"
    unfolding i r [symmetric] pay_def [symmetric]
    by (auto simp: Let_def v split_payment_message clock_from_def)
  from b(2) have "paidTxHash t' = Some ''0xabc1''"
    by (cases "paidTxHash t'") (simp_all add: or_empty_def)
  with g a b c d show ?thesis
    by (simp add: poem_task_def)
qed

text \<open>
  The example task is paid at 2000 and completed; a second payment message at 4000, with
  another hash, overwrites both fields of the completed task.
\<close>

theorem payment_fields_written_on_every_accepted_payment_counterexample:
  "map_option status
     (getTask (run writing_skill 3000 (pay ''0xabc1'' 2000 (q_created True))) ''t1'')
     = Some completed
   \<and> map_option paidTxHash
       (getTask (run writing_skill 3000 (pay ''0xabc1'' 2000 (q_created True))) ''t1'')
     = Some (Some ''0xabc1'')
   \<and> map_option paidAt
       (getTask (run writing_skill 3000 (pay ''0xabc1'' 2000 (q_created True))) ''t1'')
     = Some (Some 2000)
   \<and> map_option paidTxHash
       (getTask (pay ''0xabc2'' 4000 (run writing_skill 3000 (pay ''0xabc1'' 2000 (q_created True))))
          ''t1'')
     = Some (Some ''0xabc2'')
   \<and> map_option paidAt
       (getTask (pay ''0xabc2'' 4000 (run writing_skill 3000 (pay ''0xabc1'' 2000 (q_created True))))
          ''t1'')
     = Some (Some 4000)"
  by (simp add: done_example getTask_pay [OF done_example] scenario_defs)

text \<open>
  Claim C3. What an execution leaves in \<open>deliverable\<close> and \<open>error\<close>. Without a skill, or
  when the skill throws, the task is \<open>failed\<close> with the message as its error, and its
  deliverable is what it was. When the skill returns, its deliverable is written; the task
  is then \<open>completed\<close> with the error it had before, unless storing the learning throws:
  then it is \<open>failed\<close> with that message as its error, the deliverable still written.
  No update clears the other field. (An empty text is read back from the external store as
  absent, hence \<open>or_empty\<close>.)
\<close>

theorem executeTask_deliverable_and_error:
  assumes "getTask q (task_id task) = Some t"
  shows "\<exists>t2. getTask (executeTask skills memory_store q task now) (task_id task) = Some t2
     \<and> (case getSkill skills (category task) of
          None \<Rightarrow>
            status t2 = failed
            \<and> error t2 = Some (''No skill found for category: '' @ category task)
            \<and> deliverable t2 = deliverable t
        | Some skill \<Rightarrow>
           (case skill \<lparr>ctx_taskId = task_id task, ctx_description = description task,
                         ctx_category = category task\<rparr> of
              Inl message \<Rightarrow>
                status t2 = failed \<and> or_empty (error t2) = message
                \<and> deliverable t2 = deliverable t
            | Inr result \<Rightarrow>
                or_empty (deliverable t2) = res_deliverable result
                \<and> (case memory_store
                           (''Completed '' @ category task @ '' task: ''
                            @ take 100 (description task) @ ''. Approach: ''
                            @ approach result) of
                      None \<Rightarrow> status t2 = completed \<and> error t2 = error t
                    | Some message \<Rightarrow> status t2 = failed \<and> or_empty (error t2) = message)))"
proof -
  note nonempty = stored_texts [OF assms]
  from getTask_executeTask_same [OF assms, of now skills memory_store]
  show ?thesis
    using nonempty(2,3)
    by (auto simp: through_store_simps through_store_texts or_empty_through_store merge_fields
        or_empty_def Let_def split: option.splits sum.splits)
qed

text \<open>
  The example task, paid and run with a skill that delivers: completed, with the poem and no
  error.
\<close>

theorem executeTask_deliverable_and_error_witness:
  "getTask (pay ''0xabc1'' 2000 (q_created True)) ''t1'' =
     Some (poem_task\<lparr>status := paid, senderAddress := Some payer_addr,
                     paidTxHash := Some ''0xabc1'', paidAt := Some 2000, updatedAt := 2001\<rparr>)
   \<and> map_option (\<lambda>t. (status t, deliverable t, error t))
       (getTask (run writing_skill 3000 (pay ''0xabc1'' 2000 (q_created True))) ''t1'')
     = Some (completed, Some ''a poem'', None)"
proof -
  let ?q = "pay ''0xabc1'' 2000 (q_created True)"
  let ?t = "poem_task\<lparr>status := paid, senderAddress := Some payer_addr,
                     paidTxHash := Some ''0xabc1'', paidAt := Some 2000, updatedAt := 2001\<rparr>"
  have g: "getTask ?q ''t1'' = Some ?t"
    by (rule paid_example)
  have i: "task_id ?t = ''t1''" and c: "category ?t = ''writing''" and e: "error ?t = None"
    by (simp_all add: poem_task_def)
  have g': "getTask ?q (task_id ?t) = Some ?t"
    unfolding i by (rule g)
  have r: "run writing_skill 3000 ?q =
             executeTask (skills_with writing_skill) (\<lambda>c. None) ?q ?t (clock_from 3000)"
    by (simp add: run_def process_job_def g)
  from executeTask_deliverable_and_error
         [OF g', where skills = "skills_with writing_skill" and memory_store = "\<lambda>c. None"
            and now = "clock_from 3000"]
  obtain t2 where a: "getTask (run writing_skill 3000 ?q) ''t1'' = Some t2"
    and b: "or_empty (deliverable t2) = ''a poem''" "status t2 = completed" "error t2 = None"
    unfolding r [symmetric] i c e
    by (auto simp: getSkill_def skills_with_def writing_skill_def)
  from b(1) have "deliverable t2 = Some ''a poem''"
    by (cases "deliverable t2") (simp_all add: or_empty_def)
  with g a b show ?thesis by simp
qed

text \<open>
  The example task is paid and its execution fails; the payment message is sent again and
  the second execution delivers: the task is completed with both a deliverable and an error.
\<close>

theorem executeTask_deliverable_and_error_counterexample:
  "map_option status
     (getTask
        (run writing_skill 5000
           (pay ''0xabc1'' 4000 (run failing_skill 3000 (pay ''0xabc1'' 2000 (q_created True)))))
        ''t1'')
     = Some completed
   \<and> map_option deliverable
       (getTask
          (run writing_skill 5000
             (pay ''0xabc1'' 4000 (run failing_skill 3000 (pay ''0xabc1'' 2000 (q_created True)))))
          ''t1'')
     = Some (Some ''a poem'')
   \<and> map_option error
       (getTask
          (run writing_skill 5000
             (pay ''0xabc1'' 4000 (run failing_skill 3000 (pay ''0xabc1'' 2000 (q_created True)))))
          ''t1'')
     = Some (Some ''model overloaded'')"
  by (subst getTask_run [OF getTask_pay [OF failed_example]], simp_all add: scenario_defs)+



text \<open>
  Claim C8. The two modes of the store differ on an empty optional text. The example task is
  created and read back the same in both; then an empty deliverable is written: the memory
  keeps it, the external store writes the empty string for an absent field and reads it back
  as absent.
\<close>

theorem empty_deliverable_differs_between_modes:
  "getTask (q_created True) ''t1'' = Some poem_task
   \<and> getTask (q_created False) ''t1'' = Some poem_task
   \<and> getTask (snd (updateTask (q_created True) ''t1''
                     (no_update\<lparr>u_deliverable := Some (Some [])\<rparr>) 2000)) ''t1''
       = Some (poem_task\<lparr>deliverable := Some [], updatedAt := 2000\<rparr>)
   \<and> getTask (snd (updateTask (q_created False) ''t1''
                     (no_update\<lparr>u_deliverable := Some (Some [])\<rparr>) 2000)) ''t1''
       = Some (poem_task\<lparr>updatedAt := 2000\<rparr>)
   \<and> poem_task\<lparr>deliverable := Some [], updatedAt := 2000\<rparr> \<noteq> poem_task\<lparr>updatedAt := 2000\<rparr>"
  by (simp add: getTask_updateTask getTask_q_created scenario_defs)

end
